theory Spec2Isabelle
  imports Main
begin

section \<open>Python values and the library functions the handler uses\<close>

text \<open>
  The handler of \<^verbatim>\<open>amplify/backend/function/alarmsScheduler/src/index.py\<close> works on
  the value \<^verbatim>\<open>json.loads\<close> makes of the request body and on the dictionaries the
  service clients return. Both are Python values of the JSON shapes: \<^verbatim>\<open>None\<close>,
  booleans, integers, floats, strings, lists and dictionaries with string keys.

  A string is a list of 8-bit characters, read as code points below 256; text with
  code points beyond that is outside the model. A float is carried as the text Python's
  \<^verbatim>\<open>repr\<close> gives it (\<^verbatim>\<open>1.5\<close>, \<^verbatim>\<open>-0.0\<close>, \<^verbatim>\<open>nan\<close>): the handler
  only tests a value's truth and turns it into text. A dictionary is the list of its
  items in insertion order; its keys are distinct, and \<open>map_of\<close> reads it.
\<close>

datatype json =
    JNull
  | JBool bool
  | JInt int
  | JFloat string
  | JStr string
  | JArr "json list"
  | JObj "(string \<times> json) list"

abbreviation dq :: char where "dq \<equiv> CHR 0x22"
abbreviation sq :: char where "sq \<equiv> CHR 0x27"
abbreviation bs :: char where "bs \<equiv> CHR 0x5C"

text \<open>
  The exceptions the handler can meet. \<open>KeyError k\<close> is a missing key \<open>k\<close>;
  \<open>TypeError\<close>, \<open>AttributeError\<close> and \<open>UnboundLocalError\<close> carry their message;
  \<open>LibraryError\<close> is any other exception a library raises (\<^verbatim>\<open>json.loads\<close> on a
  body that is not JSON, a client call the service refuses), carried as the text
  \<^verbatim>\<open>str(e)\<close> gives. All of them are subclasses of \<^verbatim>\<open>Exception\<close>.
\<close>

datatype exn =
    KeyError string
  | TypeError string
  | AttributeError string
  | UnboundLocalError string
  | LibraryError string

subsection \<open>Text of numbers\<close>

definition digit_char :: "nat \<Rightarrow> char" where
  "digit_char n = ''0123456789abcdef'' ! (n mod 16)"

fun show_nat :: "nat \<Rightarrow> string" where
  "show_nat n = (if n < 10 then [digit_char n] else show_nat (n div 10) @ [digit_char (n mod 10)])"

declare show_nat.simps [simp del]

definition show_int :: "int \<Rightarrow> string" where
  "show_int i = (if i < 0 then CHR ''-'' # show_nat (nat (- i)) else show_nat (nat i))"

definition hex2 :: "nat \<Rightarrow> string" where
  "hex2 n = [digit_char (n div 16), digit_char (n mod 16)]"

subsection \<open>\<^verbatim>\<open>repr\<close> and \<^verbatim>\<open>str\<close>\<close>

text \<open>
  \<^verbatim>\<open>repr\<close> of a string: single quotes, unless the text has a single quote and no
  double quote; the quote and the backslash escaped; tab, newline and carriage return by
  letter; every other character that is not printable as \<^verbatim>\<open>\xhh\<close>.
\<close>

definition printable :: "char \<Rightarrow> bool" where
  "printable c = (let n = (of_char c :: nat) in
     (32 \<le> n \<and> n < 127) \<or> (161 \<le> n \<and> n \<noteq> 173))"

definition repr_char :: "char \<Rightarrow> char \<Rightarrow> string" where
  "repr_char q c =
     (if c = q \<or> c = bs then [bs, c]
      else if c = CHR 0x09 then [bs, CHR ''t'']
      else if c = CHR 0x0A then [bs, CHR ''n'']
      else if c = CHR 0x0D then [bs, CHR ''r'']
      else if printable c then [c]
      else [bs, CHR ''x''] @ hex2 (of_char c))"

definition repr_str :: "string \<Rightarrow> string" where
  "repr_str s =
     (let q = (if sq \<in> set s \<and> dq \<notin> set s then dq else sq)
      in [q] @ concat (map (repr_char q) s) @ [q])"

fun join :: "string \<Rightarrow> string list \<Rightarrow> string" where
  "join sep [] = []"
| "join sep [x] = x"
| "join sep (x # y # ys) = x @ sep @ join sep (y # ys)"

fun py_repr :: "json \<Rightarrow> string" where
  "py_repr JNull = ''None''"
| "py_repr (JBool b) = (if b then ''True'' else ''False'')"
| "py_repr (JInt i) = show_int i"
| "py_repr (JFloat r) = r"
| "py_repr (JStr s) = repr_str s"
| "py_repr (JArr xs) = ''['' @ join '', '' (map py_repr xs) @ '']''"
| "py_repr (JObj kvs) =
     ''{'' @ join '', '' (map (\<lambda>(k, v). repr_str k @ '': '' @ py_repr v) kvs) @ ''}''"

definition py_str :: "json \<Rightarrow> string" where
  "py_str v = (case v of JStr s \<Rightarrow> s | _ \<Rightarrow> py_repr v)"

text \<open>\<^verbatim>\<open>str(e)\<close>: a \<^verbatim>\<open>KeyError\<close> prints the \<^verbatim>\<open>repr\<close> of its key.\<close>

fun exn_str :: "exn \<Rightarrow> string" where
  "exn_str (KeyError k) = repr_str k"
| "exn_str (TypeError m) = m"
| "exn_str (AttributeError m) = m"
| "exn_str (UnboundLocalError m) = m"
| "exn_str (LibraryError m) = m"

subsection \<open>Truth, subscripting, concatenation\<close>

fun truthy :: "json \<Rightarrow> bool" where
  "truthy JNull = False"
| "truthy (JBool b) = b"
| "truthy (JInt i) = (i \<noteq> 0)"
| "truthy (JFloat r) = (r \<noteq> ''0.0'' \<and> r \<noteq> ''-0.0'')"
| "truthy (JStr s) = (s \<noteq> [])"
| "truthy (JArr xs) = (xs \<noteq> [])"
| "truthy (JObj kvs) = (kvs \<noteq> [])"

fun type_name :: "json \<Rightarrow> string" where
  "type_name JNull = ''NoneType''"
| "type_name (JBool b) = ''bool''"
| "type_name (JInt i) = ''int''"
| "type_name (JFloat r) = ''float''"
| "type_name (JStr s) = ''str''"
| "type_name (JArr xs) = ''list''"
| "type_name (JObj kvs) = ''dict''"

text \<open>
  \<^verbatim>\<open>v[k]\<close> with a string key \<open>k\<close>: a dictionary gives the value or raises
  \<^verbatim>\<open>KeyError\<close>; every other value raises \<^verbatim>\<open>TypeError\<close> (the messages are
  CPython 3.8's).
\<close>

fun subscript :: "json \<Rightarrow> string \<Rightarrow> exn + json" where
  "subscript (JObj kvs) k = (case map_of kvs k of Some v \<Rightarrow> Inr v | None \<Rightarrow> Inl (KeyError k))"
| "subscript (JArr xs) k = Inl (TypeError ''list indices must be integers or slices, not str'')"
| "subscript (JStr s) k = Inl (TypeError ''string indices must be integers'')"
| "subscript v k = Inl (TypeError ([sq] @ type_name v @ [sq] @ '' object is not subscriptable''))"

text \<open>\<^verbatim>\<open>prefix + v\<close> for a string \<open>prefix\<close>: defined when \<open>v\<close> is a string.\<close>

definition str_plus :: "string \<Rightarrow> json \<Rightarrow> exn + string" where
  "str_plus prefix v =
     (case v of
        JStr s \<Rightarrow> Inr (prefix @ s)
      | _ \<Rightarrow> Inl (TypeError (''can only concatenate str (not '' @ [dq] @ type_name v @ [dq]
                 @ '') to str'')))"

text \<open>
  \<^verbatim>\<open>s.upper()\<close>: the letters a to z become A to Z. The only use of the result is the
  comparison with \<^verbatim>\<open>ENABLED\<close> and \<^verbatim>\<open>DISABLED\<close>, and passing it on when it is one
  of the two; characters outside ASCII are left as they are.
\<close>

definition upper_char :: "char \<Rightarrow> char" where
  "upper_char c =
     (case map_of (zip ''abcdefghijklmnopqrstuvwxyz'' ''ABCDEFGHIJKLMNOPQRSTUVWXYZ'') c of
        Some u \<Rightarrow> u
      | None \<Rightarrow> c)"

definition upper :: "string \<Rightarrow> string" where
  "upper s = map upper_char s"

text \<open>
  \<^verbatim>\<open>state.upper()\<close> on any value: only a string has the method.
\<close>

definition method_upper :: "json \<Rightarrow> exn + string" where
  "method_upper v =
     (case v of
        JStr s \<Rightarrow> Inr (upper s)
      | _ \<Rightarrow> Inl (AttributeError ([sq] @ type_name v @ [sq] @ '' object has no attribute ''
                 @ [sq] @ ''upper'' @ [sq])))"

subsection \<open>\<^verbatim>\<open>json.dumps\<close>\<close>

text \<open>
  With the default options: ASCII only, items separated by a comma and a space, keys by a
  colon and a space. In a string, the double quote and the backslash are escaped, the
  five control characters JSON names by letter, and every other character outside the
  printable ASCII range as \<^verbatim>\<open>\u00hh\<close>.
\<close>

definition dumps_char :: "char \<Rightarrow> string" where
  "dumps_char c =
     (if c = dq then [bs, dq]
      else if c = bs then [bs, bs]
      else if c = CHR 0x0A then [bs, CHR ''n'']
      else if c = CHR 0x0D then [bs, CHR ''r'']
      else if c = CHR 0x09 then [bs, CHR ''t'']
      else if c = CHR 0x08 then [bs, CHR ''b'']
      else if c = CHR 0x0C then [bs, CHR ''f'']
      else if 32 \<le> (of_char c :: nat) \<and> (of_char c :: nat) < 127 then [c]
      else [bs, CHR ''u'', CHR ''0'', CHR ''0''] @ hex2 (of_char c))"

definition dumps_str :: "string \<Rightarrow> string" where
  "dumps_str s = [dq] @ concat (map dumps_char s) @ [dq]"

definition dumps_float :: "string \<Rightarrow> string" where
  "dumps_float r =
     (if r = ''nan'' then ''NaN''
      else if r = ''inf'' then ''Infinity''
      else if r = ''-inf'' then ''-Infinity''
      else r)"

fun json_dumps :: "json \<Rightarrow> string" where
  "json_dumps JNull = ''null''"
| "json_dumps (JBool b) = (if b then ''true'' else ''false'')"
| "json_dumps (JInt i) = show_int i"
| "json_dumps (JFloat r) = dumps_float r"
| "json_dumps (JStr s) = dumps_str s"
| "json_dumps (JArr xs) = ''['' @ join '', '' (map json_dumps xs) @ '']''"
| "json_dumps (JObj kvs) =
     ''{'' @ join '', '' (map (\<lambda>(k, v). dumps_str k @ '': '' @ json_dumps v) kvs) @ ''}''"

text \<open>
  \<^verbatim>\<open>s.replace('\\\\', '\\')\<close>: from the left, every two backslashes in a row become
  one.
\<close>

fun replace_bs :: "string \<Rightarrow> string" where
  "replace_bs (a # b # r) =
     (if a = bs \<and> b = bs then bs # replace_bs r else a # replace_bs (b # r))"
| "replace_bs s = s"

section \<open>The helpers of the handler\<close>

subsection \<open>\<^verbatim>\<open>validate_name\<close>\<close>

text \<open>
  \<^verbatim>\<open>re.fullmatch("[\\.\\-_A-Za-z0-9]+", name)\<close>: the whole name is one or more
  characters of the class. The result is used for its truth only.
\<close>

definition name_char :: "char \<Rightarrow> bool" where
  "name_char c = (let n = (of_char c :: nat) in
     c = CHR ''.'' \<or> c = CHR ''-'' \<or> c = CHR ''_''
     \<or> (65 \<le> n \<and> n \<le> 90) \<or> (97 \<le> n \<and> n \<le> 122) \<or> (48 \<le> n \<and> n \<le> 57))"

definition validate_name :: "string \<Rightarrow> bool" where
  "validate_name name = (name \<noteq> [] \<and> list_all name_char name)"

subsection \<open>\<^verbatim>\<open>validate_date\<close>\<close>

text \<open>
  \<^verbatim>\<open>datetime.strptime(strDate, "%Y-%m-%d %H:%M:%S")\<close> compiles the format into the
  regular expression
  \<^verbatim>\<open>(\d\d\d\d)-(1[0-2]|0[1-9]|[1-9])-(3[0-1]|[1-2]\d|0[1-9]|[1-9]| [1-9])\s+(2[0-3]|[0-1]\d|\d):([0-5]\d|\d):(6[0-1]|[0-5]\d|\d)\<close>,
  matches it at the start of the text, refuses a match that does not end at the end of
  the text, and builds the date, which refuses year 0, a day the month does not have and
  a second beyond 59. A matcher returns its matches in the order the backtracking
  matcher of \<^verbatim>\<open>re\<close> tries them: alternatives left to right, \<^verbatim>\<open>\s+\<close> longest first.
\<close>

record datetime =
  year :: nat
  month :: nat
  day :: nat
  hour :: nat
  minute :: nat
  second :: nat

type_synonym 'a matcher = "string \<Rightarrow> ('a \<times> string) list"

definition digit_val :: "char \<Rightarrow> nat" where
  "digit_val c = of_char c - 48"

definition in_range :: "char \<Rightarrow> char \<Rightarrow> char \<Rightarrow> bool" where
  "in_range lo hi c = ((of_char lo :: nat) \<le> of_char c \<and> (of_char c :: nat) \<le> of_char hi)"

definition is_digit :: "char \<Rightarrow> bool" where
  "is_digit c = in_range (CHR ''0'') (CHR ''9'') c"

text \<open>\<^verbatim>\<open>\s\<close> on text below code point 256.\<close>

definition is_space :: "char \<Rightarrow> bool" where
  "is_space c = (let n = (of_char c :: nat) in
     (9 \<le> n \<and> n \<le> 13) \<or> (28 \<le> n \<and> n \<le> 32) \<or> n = 133 \<or> n = 160)"

definition two :: "(char \<Rightarrow> bool) \<Rightarrow> (char \<Rightarrow> bool) \<Rightarrow> nat matcher" where
  "two P Q s =
     (case s of
        a # b # r \<Rightarrow> if P a \<and> Q b then [(10 * digit_val a + digit_val b, r)] else []
      | _ \<Rightarrow> [])"

definition one :: "(char \<Rightarrow> bool) \<Rightarrow> nat matcher" where
  "one P s = (case s of a # r \<Rightarrow> if P a then [(digit_val a, r)] else [] | [] \<Rightarrow> [])"

definition lit :: "char \<Rightarrow> string \<Rightarrow> string list" where
  "lit c s = (case s of a # r \<Rightarrow> if a = c then [r] else [] | [] \<Rightarrow> [])"

definition alt :: "'a matcher list \<Rightarrow> 'a matcher" where
  "alt ms s = concat (map (\<lambda>m. m s) ms)"

definition re_Y :: "nat matcher" where
  "re_Y s =
     (case s of
        a # b # c # d # r \<Rightarrow>
          if is_digit a \<and> is_digit b \<and> is_digit c \<and> is_digit d
          then [(1000 * digit_val a + 100 * digit_val b + 10 * digit_val c + digit_val d, r)]
          else []
      | _ \<Rightarrow> [])"

definition re_m :: "nat matcher" where
  "re_m = alt [two ((=) (CHR ''1'')) (in_range (CHR ''0'') (CHR ''2'')),
               two ((=) (CHR ''0'')) (in_range (CHR ''1'') (CHR ''9'')),
               one (in_range (CHR ''1'') (CHR ''9''))]"

definition re_d :: "nat matcher" where
  "re_d = alt [two ((=) (CHR ''3'')) (in_range (CHR ''0'') (CHR ''1'')),
               two (in_range (CHR ''1'') (CHR ''2'')) is_digit,
               two ((=) (CHR ''0'')) (in_range (CHR ''1'') (CHR ''9'')),
               one (in_range (CHR ''1'') (CHR ''9'')),
               (\<lambda>s. List.bind (lit (CHR '' '') s) (one (in_range (CHR ''1'') (CHR ''9''))))]"

definition re_H :: "nat matcher" where
  "re_H = alt [two ((=) (CHR ''2'')) (in_range (CHR ''0'') (CHR ''3'')),
               two (in_range (CHR ''0'') (CHR ''1'')) is_digit,
               one is_digit]"

definition re_M :: "nat matcher" where
  "re_M = alt [two (in_range (CHR ''0'') (CHR ''5'')) is_digit, one is_digit]"

definition re_S :: "nat matcher" where
  "re_S = alt [two ((=) (CHR ''6'')) (in_range (CHR ''0'') (CHR ''1'')),
               two (in_range (CHR ''0'') (CHR ''5'')) is_digit,
               one is_digit]"

fun re_ws :: "string \<Rightarrow> string list" where
  "re_ws [] = []"
| "re_ws (c # r) = (if is_space c then re_ws r @ [r] else [])"

definition date_regex :: "datetime matcher" where
  "date_regex s0 =
     List.bind (re_Y s0) (\<lambda>(Y, s1).
     List.bind (lit (CHR ''-'') s1) (\<lambda>s2.
     List.bind (re_m s2) (\<lambda>(m, s3).
     List.bind (lit (CHR ''-'') s3) (\<lambda>s4.
     List.bind (re_d s4) (\<lambda>(d, s5).
     List.bind (re_ws s5) (\<lambda>s6.
     List.bind (re_H s6) (\<lambda>(H, s7).
     List.bind (lit (CHR '':'') s7) (\<lambda>s8.
     List.bind (re_M s8) (\<lambda>(M, s9).
     List.bind (lit (CHR '':'') s9) (\<lambda>s10.
     List.bind (re_S s10) (\<lambda>(S, s11).
       [(\<lparr>year = Y, month = m, day = d, hour = H, minute = M, second = S\<rparr>, s11)])))))))))))"

definition is_leap :: "nat \<Rightarrow> bool" where
  "is_leap y = (y mod 4 = 0 \<and> (y mod 400 = 0 \<or> y mod 100 \<noteq> 0))"

definition days_in_month :: "nat \<Rightarrow> nat \<Rightarrow> nat" where
  "days_in_month y m =
     (if m = 2 then (if is_leap y then 29 else 28)
      else if m = 4 \<or> m = 6 \<or> m = 9 \<or> m = 11 then 30
      else 31)"

text \<open>\<open>None\<close> is the \<^verbatim>\<open>ValueError\<close> of \<^verbatim>\<open>strptime\<close>.\<close>

definition strptime :: "string \<Rightarrow> datetime option" where
  "strptime s =
     (case date_regex s of
        [] \<Rightarrow> None
      | (dt, rest) # _ \<Rightarrow>
          if rest \<noteq> [] then None
          else if year dt < 1 \<or> days_in_month (year dt) (month dt) < day dt \<or> 59 < second dt
          then None
          else Some dt)"

text \<open>
  \<^verbatim>\<open>validate_date\<close> returns the date, or the empty string when \<^verbatim>\<open>strptime\<close>
  raises: a \<^verbatim>\<open>ValueError\<close> on text it refuses, a \<^verbatim>\<open>TypeError\<close> on a value that is
  not a string. Its callers test the result's truth and read its hour and minute; a
  date is always true, so \<open>None\<close> stands for the empty string.
\<close>

definition validate_date :: "json \<Rightarrow> datetime option" where
  "validate_date strDate = (case strDate of JStr s \<Rightarrow> strptime s | _ \<Rightarrow> None)"

text \<open>\<^verbatim>\<open>'cron(%s %s * * ? *)' % (datetime_object.minute, datetime_object.hour)\<close>\<close>

definition cron_expression :: "datetime \<Rightarrow> string" where
  "cron_expression dt =
     ''cron('' @ show_nat (minute dt) @ '' '' @ show_nat (hour dt) @ '' * * ? *)''"

subsection \<open>\<^verbatim>\<open>read_body_parameter\<close> and \<^verbatim>\<open>json_response\<close>\<close>

text \<open>A missing key gives the empty string; any other exception leaves the function.\<close>

definition read_body_parameter :: "json \<Rightarrow> string \<Rightarrow> exn + json" where
  "read_body_parameter requestBody parameterName =
     (case subscript requestBody parameterName of
        Inl (KeyError k) \<Rightarrow> Inr (JStr [])
      | r \<Rightarrow> r)"

record response =
  statusCode :: int
  headers :: "(string \<times> string) list"
  body :: string

definition json_response :: "json \<Rightarrow> int \<Rightarrow> response" where
  "json_response responseMessage code =
     \<lparr>statusCode = code,
      headers = [(''Access-Control-Allow-Headers'', ''*''),
                 (''Access-Control-Allow-Origin'', ''*''),
                 (''Access-Control-Allow-Methods'', ''POST'')],
      body = replace_bs (json_dumps responseMessage)\<rparr>"

section \<open>The service clients\<close>

text \<open>
  The handler talks to two clients of \<^verbatim>\<open>boto3\<close>: the events client (rules and
  targets) and the lambda client (\<^verbatim>\<open>get_function\<close>). A call is the method with its
  keyword arguments; a target is the dictionary with the keys \<^verbatim>\<open>Arn\<close>, \<^verbatim>\<open>Id\<close> and
  \<^verbatim>\<open>Input\<close>.
\<close>

record target =
  target_arn :: json
  target_id :: string
  target_input :: string

datatype call =
    GetFunction string
  | ListRules
  | DescribeRule string
  | PutRule string json json
  | PutTargets string "target list"
  | RemoveTargets string "string list" bool
  | DeleteRule string bool

text \<open>
  The services are not part of the repository: a service is any function that answers a
  call in a state of its own, with a value or an exception, and moves to a new state. The
  world the handler runs in is the service's state with the list of the calls made so
  far. Constructing the clients calls no service. \<^verbatim>\<open>print\<close> is left out.
\<close>

type_synonym 's service = "call \<Rightarrow> 's \<Rightarrow> (exn + json) \<times> 's"

record 's world =
  calls :: "call list"
  store :: 's

type_synonym ('a, 's) run = "(exn + 'a) \<times> 's world"

definition invoke :: "'s service \<Rightarrow> call \<Rightarrow> 's world \<Rightarrow> (json, 's) run" where
  "invoke srv c w =
     (case srv c (store w) of (r, s') \<Rightarrow> (r, \<lparr>calls = calls w @ [c], store = s'\<rparr>))"

text \<open>Sequencing: an exception ends the run of statements.\<close>

definition bind :: "('a, 's) run \<Rightarrow> ('a \<Rightarrow> 's world \<Rightarrow> ('b, 's) run) \<Rightarrow> ('b, 's) run" where
  "bind m f = (case m of (Inl e, w) \<Rightarrow> (Inl e, w) | (Inr a, w) \<Rightarrow> f a w)"

text \<open>
  A function of the handler returns a response or, when it falls off its end,
  \<^verbatim>\<open>None\<close>.
\<close>

definition respond :: "json \<Rightarrow> int \<Rightarrow> 's world \<Rightarrow> (response option, 's) run" where
  "respond responseMessage code w = (Inr (Some (json_response responseMessage code)), w)"

text \<open>\<^verbatim>\<open>except Exception as e: return json_response(str(e), 400)\<close>\<close>

definition catch_all :: "(response option, 's) run \<Rightarrow> (response option, 's) run" where
  "catch_all m = (case m of (Inl e, w) \<Rightarrow> respond (JStr (exn_str e)) 400 w | (Inr r, w) \<Rightarrow> (Inr r, w))"

section \<open>The four operations\<close>

definition pattern_message :: string where
  "pattern_message =
     ''The rule's id must satisfy regular expression pattern: ['' @ [bs] @ ''.'' @ [bs]
       @ ''-_A-Za-z0-9]+''"

definition query_rule :: "json \<Rightarrow> 's service \<Rightarrow> 's world \<Rightarrow> (response option, 's) run" where
  "query_rule requestBody cloudwatch_events w =
     bind (read_body_parameter requestBody ''id'', w) (\<lambda>v w.
       let name = py_str v in
       catch_all
         (if name = [] then
            bind (invoke cloudwatch_events ListRules w) (\<lambda>query_result w.
              respond query_result 200 w)
          else if \<not> validate_name name then respond (JStr pattern_message) 400 w
          else
            bind (invoke cloudwatch_events (DescribeRule name) w) (\<lambda>query_result w.
              respond query_result 200 w)))"

text \<open>\<^verbatim>\<open>'{ "id" : ' + name + ' }'\<close>\<close>

definition target_input_of :: "string \<Rightarrow> string" where
  "target_input_of name = ''{ '' @ [dq] @ ''id'' @ [dq] @ '' : '' @ name @ '' }''"

definition create_rule ::
    "json \<Rightarrow> json \<Rightarrow> 's service \<Rightarrow> 's world \<Rightarrow> (response option, 's) run" where
  "create_rule requestBody executerArn cloudwatch_events w =
     bind (read_body_parameter requestBody ''id'', w) (\<lambda>v w.
     bind (read_body_parameter requestBody ''date'', w) (\<lambda>date w.
       let name = py_str v in
       if name = [] then respond (JStr ''The id on the body request cannot be empty'') 400 w
       else if \<not> truthy date then respond (JStr ''You must provide a date for the event'') 400 w
       else if \<not> validate_name name then respond (JStr pattern_message) 400 w
       else
         (case validate_date date of
            None \<Rightarrow>
              respond (JStr ''There was an issue reading the date. Provide a date with a valid format e.g. yyyy-mm-dd HH:MM:ss'') 400 w
          | Some datetime_object \<Rightarrow>
              catch_all
                (bind (invoke cloudwatch_events
                        (PutRule name (JStr (cron_expression datetime_object)) (JStr ''ENABLED'')) w)
                   (\<lambda>new_rule_response w.
                 bind (invoke cloudwatch_events
                        (PutTargets name
                           [\<lparr>target_arn = executerArn, target_id = name,
                             target_input = target_input_of name\<rparr>]) w)
                   (\<lambda>created_rule_response w.
                 bind (subscript new_rule_response ''RuleArn'', w) (\<lambda>arn w.
                 bind (str_plus ''New Rule created successfully: '' arn, w) (\<lambda>m w.
                   respond (JStr m) 200 w))))))))"

text \<open>
  In \<^verbatim>\<open>update_rule\<close> the test of the state stands before the \<^verbatim>\<open>try\<close>: the
  \<^verbatim>\<open>AttributeError\<close> of \<^verbatim>\<open>state.upper()\<close> on a state that is not a string leaves
  the function.
\<close>

definition bad_state :: "json \<Rightarrow> exn + bool" where
  "bad_state state =
     (if truthy state then
        (case method_upper state of
           Inl e \<Rightarrow> Inl e
         | Inr u \<Rightarrow> Inr (u \<noteq> ''ENABLED'' \<and> u \<noteq> ''DISABLED''))
      else Inr False)"

definition update_rule :: "json \<Rightarrow> 's service \<Rightarrow> 's world \<Rightarrow> (response option, 's) run" where
  "update_rule requestBody cloudwatch_events w =
     bind (read_body_parameter requestBody ''id'', w) (\<lambda>v w.
     bind (read_body_parameter requestBody ''date'', w) (\<lambda>date w.
     bind (read_body_parameter requestBody ''state'', w) (\<lambda>state w.
       let name = py_str v in
       if name = [] then respond (JStr ''The id on the body request cannot be empty'') 400 w
       else if \<not> truthy date \<and> \<not> truthy state then
         respond (JStr ''You must provide a date or a state to update the event'') 400 w
       else if \<not> validate_name name then respond (JStr pattern_message) 400 w
       else
         let datetime_object = (if truthy date then validate_date date else None) in
         bind (bad_state state, w) (\<lambda>bad w.
           if bad then respond (JStr ''The state must be either ENABLED or DISABLED'') 400 w
           else
             catch_all
               (let cron = map_option cron_expression datetime_object in
                bind (invoke cloudwatch_events (DescribeRule name) w) (\<lambda>query_result w.
                bind ((case cron of
                         Some c \<Rightarrow> Inr (JStr c)
                       | None \<Rightarrow> subscript query_result ''ScheduleExpression''), w)
                  (\<lambda>schedule w.
                bind ((if truthy state then map_sum id JStr (method_upper state)
                       else subscript query_result ''State''), w)
                  (\<lambda>new_state w.
                bind (invoke cloudwatch_events (PutRule name schedule new_state) w)
                  (\<lambda>updated_rule_response w.
                bind (subscript updated_rule_response ''RuleArn'', w) (\<lambda>arn w.
                bind (str_plus ''Rule updated successfully: '' arn, w) (\<lambda>m w.
                  respond (JStr m) 200 w)))))))))))"

text \<open>
  In \<^verbatim>\<open>delete_rule\<close> the variable \<^verbatim>\<open>delete_rule_response\<close> is bound only when the
  response of \<^verbatim>\<open>remove_targets\<close> is true; reading it unbound raises
  \<^verbatim>\<open>UnboundLocalError\<close>, inside the \<^verbatim>\<open>try\<close>. When it is bound and false, the
  function falls off its end. The wording of that error is the interpreter's and differs
  between versions of CPython, so it is a parameter: a function from the name of the
  variable to the message.
\<close>

type_synonym interpreter = "string \<Rightarrow> string"

definition delete_rule ::
    "interpreter \<Rightarrow> json \<Rightarrow> 's service \<Rightarrow> 's world \<Rightarrow> (response option, 's) run" where
  "delete_rule unbound_local requestBody cloudwatch_events w =
     bind (read_body_parameter requestBody ''id'', w) (\<lambda>v w.
       let name = py_str v in
       if name = [] then respond (JStr ''The id on the body request cannot be empty'') 400 w
       else if \<not> validate_name name then respond (JStr pattern_message) 400 w
       else
         catch_all
           (bind (invoke cloudwatch_events (RemoveTargets name [name] True) w)
              (\<lambda>remove_targets_response w.
            bind (if truthy remove_targets_response
                  then bind (invoke cloudwatch_events (DeleteRule name True) w)
                         (\<lambda>r w. (Inr (Some r), w))
                  else (Inr None, w))
              (\<lambda>delete_rule_response w.
                case delete_rule_response of
                  None \<Rightarrow> (Inl (UnboundLocalError (unbound_local ''delete_rule_response'')), w)
                | Some r \<Rightarrow>
                    if truthy r then respond (JStr ''Rule deleted successfully'') 200 w
                    else (Inr None, w)))))"

section \<open>The handler\<close>

text \<open>
  The event gives \<^verbatim>\<open>event['httpMethod']\<close> (\<open>None\<close> when the key is missing) and what
  \<^verbatim>\<open>json.loads(event['body'])\<close> comes to: the value, or the exception (of
  \<^verbatim>\<open>json.loads\<close>, or the \<^verbatim>\<open>KeyError\<close> of a missing body). The environment gives
  \<^verbatim>\<open>os.environ['ENV']\<close>, \<open>None\<close> when the variable is not set. The first parameter
  is the interpreter's wording of an unbound local, for \<^verbatim>\<open>delete_rule\<close>.
\<close>

record event =
  httpMethod :: "string option"
  loaded_body :: "exn + json"

definition handler ::
    "interpreter \<Rightarrow> string option \<Rightarrow> event \<Rightarrow> 's service \<Rightarrow> 's world
       \<Rightarrow> (response option, 's) run" where
  "handler unbound_local environ_ENV event srv w =
     (case environ_ENV of
        None \<Rightarrow> (Inl (KeyError ''ENV''), w)
      | Some env \<Rightarrow>
     (case loaded_body event of
        Inl e \<Rightarrow> respond (JStr (exn_str e)) 400 w
      | Inr request_body \<Rightarrow>
     (case httpMethod event of
        None \<Rightarrow> (Inl (KeyError ''httpMethod''), w)
      | Some m \<Rightarrow>
          if m \<noteq> ''POST'' then
            respond (JStr ''Please use POST httpMethod for this endPoint'') 405 w
          else
            (case subscript request_body ''action'' of
               Inl (KeyError k) \<Rightarrow>
                 respond (JStr ''There was an error reading the action on the body request'') 400 w
             | Inl e \<Rightarrow> (Inl e, w)
             | Inr action \<Rightarrow>
                 if \<not> truthy action \<and> action \<noteq> JStr ''create'' \<and> action \<noteq> JStr ''query''
                    \<and> action \<noteq> JStr ''delete'' \<and> action \<noteq> JStr ''update''
                 then
                   respond (JStr ''The action on the body request should be: create, query, delete or update.'') 400 w
                 else
                   bind (invoke srv (GetFunction (''alarmsExecuter-'' @ env)) w) (\<lambda>response w.
                   bind (subscript response ''Configuration'', w) (\<lambda>configuration w.
                   bind (subscript configuration ''FunctionArn'', w) (\<lambda>executerArn w.
                     if action = JStr ''create'' then create_rule request_body executerArn srv w
                     else if action = JStr ''query'' then query_rule request_body srv w
                     else if action = JStr ''update'' then update_rule request_body srv w
                     else if action = JStr ''delete'' then delete_rule unbound_local request_body srv w
                     else (Inr None, w))))))))"

section \<open>A service to run the handler on\<close>

text \<open>
  A small rule store in memory: a rule is its name, schedule and state. It answers as the
  real clients do where the handler looks: \<^verbatim>\<open>get_function\<close> gives the function's
  configuration, \<^verbatim>\<open>put_rule\<close> the rule's ARN, and a call that names a rule the store
  does not hold raises.
\<close>

type_synonym rules = "(string \<times> json \<times> json) list"

definition rule_json :: "string \<times> json \<times> json \<Rightarrow> json" where
  "rule_json r =
     JObj [(''Name'', JStr (fst r)), (''ScheduleExpression'', fst (snd r)), (''State'', snd (snd r))]"

definition no_rule :: "string \<Rightarrow> exn" where
  "no_rule n = LibraryError (''Rule '' @ n @ '' does not exist.'')"

definition has_rule :: "rules \<Rightarrow> string \<Rightarrow> bool" where
  "has_rule rs n = (n \<in> set (map fst rs))"

fun mem_service :: "rules service" where
  "mem_service (GetFunction n) rs =
     (Inr (JObj [(''Configuration'',
            JObj [(''FunctionName'', JStr n), (''FunctionArn'', JStr (''arn:aws:lambda:function:'' @ n))])]),
      rs)"
| "mem_service ListRules rs = (Inr (JObj [(''Rules'', JArr (map rule_json rs))]), rs)"
| "mem_service (DescribeRule n) rs =
     (case find (\<lambda>r. fst r = n) rs of
        None \<Rightarrow> (Inl (no_rule n), rs)
      | Some r \<Rightarrow> (Inr (rule_json r), rs))"
| "mem_service (PutRule n schedule state) rs =
     (Inr (JObj [(''RuleArn'', JStr (''arn:aws:events:rule/'' @ n))]),
      (n, schedule, state) # filter (\<lambda>r. fst r \<noteq> n) rs)"
| "mem_service (PutTargets n ts) rs =
     (if has_rule rs n then Inr (JObj [(''FailedEntryCount'', JInt 0), (''FailedEntries'', JArr [])])
      else Inl (no_rule n), rs)"
| "mem_service (RemoveTargets n ids force) rs =
     (if has_rule rs n then Inr (JObj [(''FailedEntryCount'', JInt 0), (''FailedEntries'', JArr [])])
      else Inl (no_rule n), rs)"
| "mem_service (DeleteRule n force) rs =
     (Inr (JObj [(''ResponseMetadata'', JObj [])]), filter (\<lambda>r. fst r \<noteq> n) rs)"

text \<open>The same service, but for one call, which it answers as told without moving.\<close>

definition answering :: "call \<Rightarrow> exn + json \<Rightarrow> 's service \<Rightarrow> 's service" where
  "answering c r srv = (\<lambda>c' s. if c' = c then (r, s) else srv c' s)"

text \<open>
  Two interpreters: the wording of CPython up to 3.10, and the wording since 3.11.
\<close>

definition cpython_3_8 :: interpreter where
  "cpython_3_8 v = ''local variable '' @ [sq] @ v @ [sq] @ '' referenced before assignment''"

definition cpython_3_11 :: interpreter where
  "cpython_3_11 v =
     ''cannot access local variable '' @ [sq] @ v @ [sq]
       @ '' where it is not associated with a value''"

definition post :: "(string \<times> json) list \<Rightarrow> event" where
  "post kvs = \<lparr>httpMethod = Some ''POST'', loaded_body = Inr (JObj kvs)\<rparr>"

definition fresh :: "'s \<Rightarrow> 's world" where
  "fresh s = \<lparr>calls = [], store = s\<rparr>"

section \<open>Vocabulary of the statements\<close>

text \<open>
  The identity lookup of the handler by itself: \<^verbatim>\<open>get_function\<close> and the two
  subscripts that read the executor's ARN from its response.
\<close>

definition executer_arn :: "'s service \<Rightarrow> string \<Rightarrow> 's \<Rightarrow> (exn + json) \<times> 's" where
  "executer_arn srv env s =
     (case srv (GetFunction (''alarmsExecuter-'' @ env)) s of
        (Inl e, s') \<Rightarrow> (Inl e, s')
      | (Inr response, s') \<Rightarrow>
          (case subscript response ''Configuration'' of
             Inl e \<Rightarrow> (Inl e, s')
           | Inr configuration \<Rightarrow> (subscript configuration ''FunctionArn'', s')))"

text \<open>The world after further calls that leave the service in state \<open>s\<close>.\<close>

definition after :: "'s world \<Rightarrow> call list \<Rightarrow> 's \<Rightarrow> 's world" where
  "after w cs s = \<lparr>calls = calls w @ cs, store = s\<rparr>"

text \<open>
  The headers every response of \<^verbatim>\<open>json_response\<close> carries, so that a statement can
  write the response out: its status code, these headers and its body.
\<close>

abbreviation cors :: "(string \<times> string) list" where
  "cors \<equiv> [(''Access-Control-Allow-Headers'', ''*''),
           (''Access-Control-Allow-Origin'', ''*''),
           (''Access-Control-Allow-Methods'', ''POST'')]"

text \<open>
  A text spells a word of capital ASCII letters in some letter case: letter by letter it
  has the capital or the small letter, which is 32 above the capital. This is said without
  \<open>upper\<close>.
\<close>

definition same_letter :: "char \<Rightarrow> char \<Rightarrow> bool" where
  "same_letter C c = (c = C \<or> (of_char c :: nat) = of_char C + 32)"

definition any_case_of :: "string \<Rightarrow> string \<Rightarrow> bool" where
  "any_case_of word s = list_all2 same_letter word s"

text \<open>What \<^verbatim>\<open>read_body_parameter\<close> reads from a dictionary.\<close>

definition field :: "(string \<times> json) list \<Rightarrow> string \<Rightarrow> json" where
  "field kvs k = (case map_of kvs k of Some v \<Rightarrow> v | None \<Rightarrow> JStr [])"

text \<open>
  The field checks of the four operations as the specification lists them (section 4.1),
  in its order, each with the message the handler answers it with: \<open>rejection\<close> is the
  message of the first check a request fails, \<open>None\<close> when it passes them all. The
  name is the text of the id. For \<^verbatim>\<open>update\<close> the date is not among them, and the
  state is checked when it is a string: it must spell \<^verbatim>\<open>ENABLED\<close> or
  \<^verbatim>\<open>DISABLED\<close> in some letter case.
\<close>

definition rejection :: "json \<Rightarrow> string \<Rightarrow> json \<Rightarrow> json \<Rightarrow> string option" where
  "rejection action name date state =
     (if action = JStr ''create'' then
        (if name = [] then Some ''The id on the body request cannot be empty''
         else if \<not> truthy date then Some ''You must provide a date for the event''
         else if \<not> validate_name name then Some pattern_message
         else if validate_date date = None then
           Some ''There was an issue reading the date. Provide a date with a valid format e.g. yyyy-mm-dd HH:MM:ss''
         else None)
      else if action = JStr ''update'' then
        (if name = [] then Some ''The id on the body request cannot be empty''
         else if \<not> truthy date \<and> \<not> truthy state then
           Some ''You must provide a date or a state to update the event''
         else if \<not> validate_name name then Some pattern_message
         else
           (case state of
              JStr s \<Rightarrow>
                if s \<noteq> [] \<and> \<not> any_case_of ''ENABLED'' s \<and> \<not> any_case_of ''DISABLED'' s
                then Some ''The state must be either ENABLED or DISABLED''
                else None
            | _ \<Rightarrow> None))
      else if action = JStr ''delete'' then
        (if name = [] then Some ''The id on the body request cannot be empty''
         else if \<not> validate_name name then Some pattern_message
         else None)
      else if action = JStr ''query'' then
        (if name \<noteq> [] \<and> \<not> validate_name name then Some pattern_message else None)
      else None)"

section \<open>Letter case\<close>

text \<open>
  \<open>upper\<close> gives a word of capitals exactly on the texts that spell it in some letter
  case.
\<close>

lemma same_letter_upper_char: "same_letter (upper_char c) c"
  by (simp add: upper_char_def same_letter_def)

lemma same_letter_upper_aux:
  assumes "same_letter C c" and "(of_char l :: nat) = of_char C + 32"
    and "upper_char C = C" and "upper_char l = C"
  shows "upper_char c = C"
proof -
  from assms(1) consider "c = C" | "(of_char c :: nat) = of_char l"
    using assms(2) by (auto simp: same_letter_def)
  then show ?thesis
  proof cases
    case 1
    then show ?thesis by (simp add: assms(3))
  next
    case 2
    then have "c = l" by simp
    then show ?thesis by (simp add: assms(4))
  qed
qed

lemma upper_E: "same_letter (CHR ''E'') c \<Longrightarrow> upper_char c = CHR ''E''"
  by (erule same_letter_upper_aux[where l = "CHR ''e''"]) (simp_all add: upper_char_def)

lemma upper_N: "same_letter (CHR ''N'') c \<Longrightarrow> upper_char c = CHR ''N''"
  by (erule same_letter_upper_aux[where l = "CHR ''n''"]) (simp_all add: upper_char_def)

lemma upper_A: "same_letter (CHR ''A'') c \<Longrightarrow> upper_char c = CHR ''A''"
  by (erule same_letter_upper_aux[where l = "CHR ''a''"]) (simp_all add: upper_char_def)

lemma upper_B: "same_letter (CHR ''B'') c \<Longrightarrow> upper_char c = CHR ''B''"
  by (erule same_letter_upper_aux[where l = "CHR ''b''"]) (simp_all add: upper_char_def)

lemma upper_L: "same_letter (CHR ''L'') c \<Longrightarrow> upper_char c = CHR ''L''"
  by (erule same_letter_upper_aux[where l = "CHR ''l''"]) (simp_all add: upper_char_def)

lemma upper_D: "same_letter (CHR ''D'') c \<Longrightarrow> upper_char c = CHR ''D''"
  by (erule same_letter_upper_aux[where l = "CHR ''d''"]) (simp_all add: upper_char_def)

lemma upper_I: "same_letter (CHR ''I'') c \<Longrightarrow> upper_char c = CHR ''I''"
  by (erule same_letter_upper_aux[where l = "CHR ''i''"]) (simp_all add: upper_char_def)

lemma upper_S: "same_letter (CHR ''S'') c \<Longrightarrow> upper_char c = CHR ''S''"
  by (erule same_letter_upper_aux[where l = "CHR ''s''"]) (simp_all add: upper_char_def)

lemmas upper_letters = upper_E upper_N upper_A upper_B upper_L upper_D upper_I upper_S

lemma any_case_upper: "upper s = word \<Longrightarrow> any_case_of word s"
  unfolding upper_def any_case_of_def
  by (induction s arbitrary: word) (auto simp: same_letter_upper_char)

lemma upper_enabled: "any_case_of ''ENABLED'' s \<Longrightarrow> upper s = ''ENABLED''"
  by (auto simp: any_case_of_def upper_def list_all2_Cons1 upper_letters)

lemma upper_disabled: "any_case_of ''DISABLED'' s \<Longrightarrow> upper s = ''DISABLED''"
  by (auto simp: any_case_of_def upper_def list_all2_Cons1 upper_letters)

lemma upper_enabled_iff: "upper s = ''ENABLED'' \<longleftrightarrow> any_case_of ''ENABLED'' s"
  using any_case_upper upper_enabled by blast

lemma upper_disabled_iff: "upper s = ''DISABLED'' \<longleftrightarrow> any_case_of ''DISABLED'' s"
  using any_case_upper upper_disabled by blast

section \<open>The dispatch and the operations, step by step\<close>

text \<open>
  Lemmas the claims share: what a call does to the world, what the handler does up to the
  dispatch, and what each operation does on a dictionary body.
\<close>

lemma invoke_eq: "srv c (store w) = (r, s) \<Longrightarrow> invoke srv c w = (r, after w [c] s)"
  by (simp add: invoke_def after_def)

lemma after_after [simp]: "after (after w cs s) ds t = after w (cs @ ds) t"
  by (simp add: after_def)

lemma store_after [simp]: "store (after w cs s) = s"
  by (simp add: after_def)

lemma read_field [simp]: "read_body_parameter (JObj kvs) k = Inr (field kvs k)"
  by (simp add: read_body_parameter_def field_def split: option.splits)

lemma handler_lookup:
  assumes "httpMethod ev = Some ''POST''" and "loaded_body ev = Inr rb"
    and "subscript rb ''action'' = Inr action" and "truthy action"
  shows "handler interp (Some env) ev srv w =
     bind (case executer_arn srv env (store w) of
             (r, s) \<Rightarrow> (r, after w [GetFunction (''alarmsExecuter-'' @ env)] s))
       (\<lambda>executerArn w.
          if action = JStr ''create'' then create_rule rb executerArn srv w
          else if action = JStr ''query'' then query_rule rb srv w
          else if action = JStr ''update'' then update_rule rb srv w
          else if action = JStr ''delete'' then delete_rule interp rb srv w
          else (Inr None, w))"
proof -
  obtain r s where srv: "srv (GetFunction (''alarmsExecuter-'' @ env)) (store w) = (r, s)"
    by (cases "srv (GetFunction (''alarmsExecuter-'' @ env)) (store w)")
  show ?thesis
  proof (cases r)
    case (Inl e)
    with srv assms show ?thesis
      by (simp add: handler_def bind_def invoke_eq executer_arn_def)
  next
    case (Inr resp)
    note r = this
    show ?thesis
    proof (cases "subscript resp ''Configuration''")
      case (Inl e)
      with r srv assms show ?thesis
        by (simp add: handler_def bind_def invoke_eq executer_arn_def)
    next
      case (Inr conf)
      with r srv assms show ?thesis
        by (cases "subscript conf ''FunctionArn''")
           (simp_all add: handler_def bind_def invoke_eq executer_arn_def)
    qed
  qed
qed

lemma post_dispatch:
  assumes "map_of kvs ''action'' = Some action" and "truthy action"
    and "executer_arn srv env (store w) = (Inr arn, s)"
  shows "handler interp (Some env) (post kvs) srv w =
     (let w1 = after w [GetFunction (''alarmsExecuter-'' @ env)] s in
      if action = JStr ''create'' then create_rule (JObj kvs) arn srv w1
      else if action = JStr ''query'' then query_rule (JObj kvs) srv w1
      else if action = JStr ''update'' then update_rule (JObj kvs) srv w1
      else if action = JStr ''delete'' then delete_rule interp (JObj kvs) srv w1
      else (Inr None, w1))"
proof -
  have "handler interp (Some env) (post kvs) srv w =
     bind (case executer_arn srv env (store w) of
             (r, s) \<Rightarrow> (r, after w [GetFunction (''alarmsExecuter-'' @ env)] s))
       (\<lambda>executerArn w.
          if action = JStr ''create'' then create_rule (JObj kvs) executerArn srv w
          else if action = JStr ''query'' then query_rule (JObj kvs) srv w
          else if action = JStr ''update'' then update_rule (JObj kvs) srv w
          else if action = JStr ''delete'' then delete_rule interp (JObj kvs) srv w
          else (Inr None, w))"
    using assms(1,2) by (intro handler_lookup) (simp_all add: post_def)
  with assms(3) show ?thesis by (simp add: bind_def Let_def)
qed

lemma delete_rule_raises:
  assumes "name = py_str (field kvs ''id'')" and "validate_name name"
    and "srv (RemoveTargets name [name] True) (store w) = (Inl e, s)"
  shows "delete_rule interp (JObj kvs) srv w =
     respond (JStr (exn_str e)) 400 (after w [RemoveTargets name [name] True] s)"
  using assms
  by (simp add: delete_rule_def bind_def catch_all_def invoke_eq validate_name_def Let_def)

lemma delete_rule_falsy:
  assumes "name = py_str (field kvs ''id'')" and "validate_name name"
    and "srv (RemoveTargets name [name] True) (store w) = (Inr r, s)" and "\<not> truthy r"
  shows "delete_rule interp (JObj kvs) srv w =
     respond (JStr (interp ''delete_rule_response'')) 400 (after w [RemoveTargets name [name] True] s)"
  using assms
  by (simp add: delete_rule_def bind_def catch_all_def invoke_eq validate_name_def Let_def)

lemma query_rule_cases:
  assumes "name = py_str (field kvs ''id'')"
  shows "query_rule (JObj kvs) srv w =
     (if name = [] then
        (case srv ListRules (store w) of
           (Inl e, s) \<Rightarrow> respond (JStr (exn_str e)) 400 (after w [ListRules] s)
         | (Inr r, s) \<Rightarrow> respond r 200 (after w [ListRules] s))
      else if validate_name name then
        (case srv (DescribeRule name) (store w) of
           (Inl e, s) \<Rightarrow> respond (JStr (exn_str e)) 400 (after w [DescribeRule name] s)
         | (Inr r, s) \<Rightarrow> respond r 200 (after w [DescribeRule name] s))
      else respond (JStr pattern_message) 400 w)"
  using assms
  by (simp add: query_rule_def bind_def catch_all_def invoke_def after_def Let_def respond_def
      split: prod.splits sum.splits)

lemma create_rule_success:
  assumes "name = py_str (field kvs ''id'')" and "validate_name name"
    and "truthy (field kvs ''date'')" and "validate_date (field kvs ''date'') = Some dt"
    and "srv (PutRule name (JStr (cron_expression dt)) (JStr ''ENABLED'')) (store w) = (Inr u, s1)"
    and "srv (PutTargets name [\<lparr>target_arn = arn, target_id = name,
                               target_input = target_input_of name\<rparr>]) s1 = (Inr t, s2)"
    and "subscript u ''RuleArn'' = Inr (JStr a)"
  shows "create_rule (JObj kvs) arn srv w =
     respond (JStr (''New Rule created successfully: '' @ a)) 200
       (after w [PutRule name (JStr (cron_expression dt)) (JStr ''ENABLED''),
                 PutTargets name [\<lparr>target_arn = arn, target_id = name,
                                   target_input = target_input_of name\<rparr>]] s2)"
  using assms
  by (simp add: create_rule_def bind_def catch_all_def invoke_eq Let_def respond_def
      validate_name_def str_plus_def)

lemma rejected_create:
  assumes "rejection (JStr ''create'') (py_str (field kvs ''id'')) (field kvs ''date'') st = Some m"
  shows "create_rule (JObj kvs) arn srv w = respond (JStr m) 400 w"
  using assms
  by (auto simp: create_rule_def bind_def rejection_def Let_def split: if_splits option.splits)

lemma rejected_delete:
  assumes "rejection (JStr ''delete'') (py_str (field kvs ''id'')) d st = Some m"
  shows "delete_rule interp (JObj kvs) srv w = respond (JStr m) 400 w"
  using assms
  by (auto simp: delete_rule_def bind_def rejection_def Let_def split: if_splits)

lemma rejected_query:
  assumes "rejection (JStr ''query'') (py_str (field kvs ''id'')) d st = Some m"
  shows "query_rule (JObj kvs) srv w = respond (JStr m) 400 w"
  using assms
  by (auto simp: query_rule_def bind_def rejection_def Let_def catch_all_def respond_def
      split: if_splits)

lemma bad_state_str:
  "bad_state (JStr s) = Inr (s \<noteq> [] \<and> upper s \<noteq> ''ENABLED'' \<and> upper s \<noteq> ''DISABLED'')"
  by (simp add: bad_state_def method_upper_def)

lemma rejected_update:
  assumes "rejection (JStr ''update'') (py_str (field kvs ''id'')) (field kvs ''date'')
             (field kvs ''state'') = Some m"
  shows "update_rule (JObj kvs) srv w = respond (JStr m) 400 w"
proof (cases "field kvs ''state''")
  case (JStr s)
  with assms show ?thesis
    by (auto simp: update_rule_def bind_def rejection_def Let_def bad_state_str
        upper_enabled_iff upper_disabled_iff split: if_splits)
qed (use assms in \<open>auto simp: update_rule_def bind_def rejection_def Let_def split: if_splits\<close>)

lemma update_rule_applies:
  assumes "name = py_str (field kvs ''id'')" and "validate_name name"
    and "truthy (field kvs ''date'') \<or> truthy (field kvs ''state'')"
    and "bad_state (field kvs ''state'') = Inr False"
    and "srv (DescribeRule name) (store w) = (Inr q, s1)"
    and "(case (if truthy (field kvs ''date'') then validate_date (field kvs ''date'') else None) of
            Some dt \<Rightarrow> Inr (JStr (cron_expression dt))
          | None \<Rightarrow> subscript q ''ScheduleExpression'') = Inr schedule"
    and "(if truthy (field kvs ''state'') then map_sum id JStr (method_upper (field kvs ''state''))
          else subscript q ''State'') = Inr new_state"
    and "srv (PutRule name schedule new_state) s1 = (Inr u, s2)"
    and "subscript u ''RuleArn'' = Inr (JStr a)"
  shows "update_rule (JObj kvs) srv w =
     respond (JStr (''Rule updated successfully: '' @ a)) 200
       (after w [DescribeRule name, PutRule name schedule new_state] s2)"
proof -
  have name: "py_str (field kvs ''id'') \<noteq> []"
    using assms(1,2) by (simp add: validate_name_def)
  show ?thesis
  proof (cases "if truthy (field kvs ''date'') then validate_date (field kvs ''date'') else None")
    case None
    with assms name show ?thesis
      by (auto simp: update_rule_def bind_def catch_all_def invoke_eq Let_def respond_def
          str_plus_def)
  next
    case (Some dt)
    with assms name show ?thesis
      by (auto simp: update_rule_def bind_def catch_all_def invoke_eq Let_def respond_def
          str_plus_def)
  qed
qed


lemma respond_eq:
  "respond v code w =
     (Inr (Some \<lparr>statusCode = code, headers = cors, body = replace_bs (json_dumps v)\<rparr>), w)"
  by (simp add: respond_def json_response_def)

lemma rejection_other:
  assumes "action \<noteq> JStr ''create''" and "action \<noteq> JStr ''query''"
    and "action \<noteq> JStr ''update''" and "action \<noteq> JStr ''delete''"
  shows "rejection action name date state = None"
  using assms by (simp add: rejection_def)

lemma rejection_messages:
  assumes "rejection action name date state = Some m"
  shows "m = ''The id on the body request cannot be empty''
    \<or> m = ''You must provide a date for the event''
    \<or> m = pattern_message
    \<or> m = ''There was an issue reading the date. Provide a date with a valid format e.g. yyyy-mm-dd HH:MM:ss''
    \<or> m = ''You must provide a date or a state to update the event''
    \<or> m = ''The state must be either ENABLED or DISABLED''"
proof -
  consider (create) "action = JStr ''create''" | (query) "action = JStr ''query''"
    | (update) "action = JStr ''update''" | (delete) "action = JStr ''delete''"
    using assms rejection_other[of action] by fastforce
  then show ?thesis
  proof cases
    case create
    with assms show ?thesis by (simp add: rejection_def split: if_splits)
  next
    case query
    with assms show ?thesis by (simp add: rejection_def split: if_splits)
  next
    case update
    with assms show ?thesis by (simp add: rejection_def split: if_splits json.splits)
  next
    case delete
    with assms show ?thesis by (simp add: rejection_def split: if_splits)
  qed
qed

lemma rejection_body:
  assumes "rejection action name date state = Some m"
  shows "replace_bs (json_dumps (JStr m)) = [dq] @ m @ [dq]"
proof -
  have b1: "replace_bs (json_dumps (JStr ''The id on the body request cannot be empty''))
      = [dq] @ ''The id on the body request cannot be empty'' @ [dq]"
    by code_simp
  have b2: "replace_bs (json_dumps (JStr ''You must provide a date for the event''))
      = [dq] @ ''You must provide a date for the event'' @ [dq]"
    by code_simp
  have b3: "replace_bs (json_dumps (JStr pattern_message)) = [dq] @ pattern_message @ [dq]"
    by code_simp
  have b4: "replace_bs (json_dumps (JStr ''There was an issue reading the date. Provide a date with a valid format e.g. yyyy-mm-dd HH:MM:ss''))
      = [dq] @ ''There was an issue reading the date. Provide a date with a valid format e.g. yyyy-mm-dd HH:MM:ss'' @ [dq]"
    by code_simp
  have b5: "replace_bs (json_dumps (JStr ''You must provide a date or a state to update the event''))
      = [dq] @ ''You must provide a date or a state to update the event'' @ [dq]"
    by code_simp
  have b6: "replace_bs (json_dumps (JStr ''The state must be either ENABLED or DISABLED''))
      = [dq] @ ''The state must be either ENABLED or DISABLED'' @ [dq]"
    by code_simp
  from rejection_messages[OF assms] show ?thesis
    using b1 b2 b3 b4 b5 b6 by (elim disjE) (simp_all only:)
qed

lemma upper_of_word:
  assumes "word = ''ENABLED'' \<or> word = ''DISABLED''" and "any_case_of word st"
  shows "upper st = word" and "st \<noteq> []"
proof -
  show "upper st = word"
    using assms upper_enabled upper_disabled by blast
  then show "st \<noteq> []"
    using assms(1) by (auto simp: upper_def)
qed

section \<open>The claims\<close>

text \<open>
  A statement writes a response out as a record: its status code, the headers \<open>cors\<close>
  and its body, which is the text \<^verbatim>\<open>json.dumps\<close> gives, with doubled backslashes made
  single. A closed statement runs the handler on the rule store in memory, under the
  wording of CPython 3.8 where it names an interpreter.
\<close>

subsection \<open>C1: create derives the schedule, creates the rule and attaches the target\<close>

text \<open>
  Claim C1. For a create request with id \<^verbatim>\<open>job-1\<close> and date
  \<^verbatim>\<open>2030-01-01 09:30:00\<close> the handler derives the schedule \<^verbatim>\<open>cron(30 9 * * ? *)\<close>,
  creates the rule with state \<^verbatim>\<open>ENABLED\<close>, attaches one target for the executor whose
  input is the JSON object with the one key \<^verbatim>\<open>id\<close> and the value \<^verbatim>\<open>job-1\<close>, and
  returns status 200.

  Run on the rule store in memory, the handler does all of that but for the input: the
  text it passes has the id between the braces without quotes, which is not JSON, where
  \<^verbatim>\<open>json.dumps\<close> of the object the claim names puts it in quotes.
\<close>

theorem create_job1_run:
  "handler cpython_3_8 (Some ''dev'')
     (post [(''action'', JStr ''create''), (''id'', JStr ''job-1''),
            (''date'', JStr ''2030-01-01 09:30:00'')])
     mem_service (fresh []) =
   (Inr (Some \<lparr>statusCode = 200, headers = cors,
               body = [dq] @ ''New Rule created successfully: arn:aws:events:rule/job-1''
                        @ [dq]\<rparr>),
    \<lparr>calls =
       [GetFunction ''alarmsExecuter-dev'',
        PutRule ''job-1'' (JStr ''cron(30 9 * * ? *)'') (JStr ''ENABLED''),
        PutTargets ''job-1''
          [\<lparr>target_arn = JStr ''arn:aws:lambda:function:alarmsExecuter-dev'',
            target_id = ''job-1'',
            target_input = ''{ '' @ [dq] @ ''id'' @ [dq] @ '' : job-1 }''\<rparr>]],
     store = [(''job-1'', JStr ''cron(30 9 * * ? *)'', JStr ''ENABLED'')]\<rparr>)
   \<and> json_dumps (JObj [(''id'', JStr ''job-1'')])
       = ''{'' @ [dq] @ ''id'' @ [dq] @ '': '' @ [dq] @ ''job-1'' @ [dq] @ ''}''"
  by code_simp

text \<open>
  The same for every create request that passes the checks, on any service that answers
  the two calls: the schedule is made of the minute and the hour of the date, the state is
  \<^verbatim>\<open>ENABLED\<close>, and the one target has the executor's ARN and the input
  \<open>target_input_of\<close> builds.
\<close>

lemma create_request_success:
  assumes "map_of kvs ''action'' = Some (JStr ''create'')"
    and "executer_arn srv env (store w) = (Inr arn, s1)"
    and "name = py_str (field kvs ''id'')" and "validate_name name"
    and "truthy (field kvs ''date'')" and "validate_date (field kvs ''date'') = Some dt"
    and "srv (PutRule name (JStr (cron_expression dt)) (JStr ''ENABLED'')) s1 = (Inr u, s2)"
    and "srv (PutTargets name [\<lparr>target_arn = arn, target_id = name,
                               target_input = target_input_of name\<rparr>]) s2 = (Inr t, s3)"
    and "subscript u ''RuleArn'' = Inr (JStr a)"
  shows "handler interp (Some env) (post kvs) srv w =
     (Inr (Some \<lparr>statusCode = 200, headers = cors,
                 body = replace_bs (json_dumps (JStr (''New Rule created successfully: '' @ a)))\<rparr>),
      \<lparr>calls = calls w @
         [GetFunction (''alarmsExecuter-'' @ env),
          PutRule name (JStr (cron_expression dt)) (JStr ''ENABLED''),
          PutTargets name [\<lparr>target_arn = arn, target_id = name,
                            target_input = target_input_of name\<rparr>]],
       store = s3\<rparr>)"
proof -
  let ?w1 = "after w [GetFunction (''alarmsExecuter-'' @ env)] s1"
  have "handler interp (Some env) (post kvs) srv w = create_rule (JObj kvs) arn srv ?w1"
    using post_dispatch[OF assms(1) _ assms(2)] by (simp add: Let_def)
  also have "\<dots> = respond (JStr (''New Rule created successfully: '' @ a)) 200
       (after ?w1 [PutRule name (JStr (cron_expression dt)) (JStr ''ENABLED''),
                   PutTargets name [\<lparr>target_arn = arn, target_id = name,
                                     target_input = target_input_of name\<rparr>]] s3)"
  proof (rule create_rule_success[where u = u and ?s1.0 = s2 and t = t and dt = dt])
    show "srv (PutRule name (JStr (cron_expression dt)) (JStr ''ENABLED'')) (store ?w1)
        = (Inr u, s2)"
      using assms(7) by simp
  qed (rule assms)+
  finally show ?thesis by (simp add: respond_eq after_def)
qed

subsection \<open>C2: a method other than POST\<close>

text \<open>
  Claim C2. For every request whose method is not \<^verbatim>\<open>POST\<close>, whatever its body, also
  a body that is not JSON, the handler returns status 405.

  The handler parses the body before it looks at the method, so a body that does not parse
  is answered with 400 whatever the method. Amended: for every request whose method is not
  \<^verbatim>\<open>POST\<close> the handler returns status 405 when the body parses and status 400, with
  the parser's message, when it does not; in both cases it calls no service.
\<close>

theorem non_post_status:
  assumes "httpMethod ev = Some m" and "m \<noteq> ''POST''"
  shows "handler interp (Some env) ev srv w =
     (case loaded_body ev of
        Inl e \<Rightarrow>
          (Inr (Some \<lparr>statusCode = 400, headers = cors,
                      body = replace_bs (json_dumps (JStr (exn_str e)))\<rparr>), w)
      | Inr request_body \<Rightarrow>
          (Inr (Some \<lparr>statusCode = 405, headers = cors,
                      body = [dq] @ ''Please use POST httpMethod for this endPoint'' @ [dq]\<rparr>),
           w))"
proof -
  have b: "replace_bs (dumps_str ''Please use POST httpMethod for this endPoint'')
      = [dq] @ ''Please use POST httpMethod for this endPoint'' @ [dq]"
    by code_simp
  show ?thesis
    using assms by (simp add: handler_def respond_eq b split: sum.splits)
qed

theorem non_post_status_witness:
  "handler cpython_3_8 (Some ''dev'')
     \<lparr>httpMethod = Some ''GET'', loaded_body = Inr (JObj [(''action'', JStr ''query'')])\<rparr>
     mem_service (fresh []) =
   (Inr (Some \<lparr>statusCode = 405, headers = cors,
               body = [dq] @ ''Please use POST httpMethod for this endPoint'' @ [dq]\<rparr>),
    \<lparr>calls = [], store = []\<rparr>)"
proof -
  let ?ev = "\<lparr>httpMethod = Some ''GET'', loaded_body = Inr (JObj [(''action'', JStr ''query'')])\<rparr>"
  have h1: "httpMethod ?ev = Some ''GET''" by simp
  have h2: "''GET'' \<noteq> ''POST''" by simp
  show ?thesis
    using non_post_status[OF h1 h2, of cpython_3_8 "''dev''" mem_service "fresh []"]
    by (simp add: fresh_def)
qed

text \<open>
  The claim as stated fails on a \<^verbatim>\<open>GET\<close> request whose body is not JSON: the status
  is 400.
\<close>

theorem non_post_unparsable_body:
  "handler cpython_3_8 (Some ''dev'')
     \<lparr>httpMethod = Some ''GET'',
      loaded_body = Inl (LibraryError ''Expecting value: line 1 column 1 (char 0)'')\<rparr>
     mem_service (fresh []) =
   (Inr (Some \<lparr>statusCode = 400, headers = cors,
               body = [dq] @ ''Expecting value: line 1 column 1 (char 0)'' @ [dq]\<rparr>),
    \<lparr>calls = [], store = []\<rparr>)"
  by code_simp

subsection \<open>C3: an action outside the four\<close>

text \<open>
  Claim C3. For every \<^verbatim>\<open>POST\<close> request with a JSON body whose action is present but
  is none of create, query, update and delete, the handler returns status 400.

  The guard of the handler joins its tests with \<^verbatim>\<open>and\<close>, \<^verbatim>\<open>not action\<close> first: it
  rejects an action only when the action is false (an empty string, zero, \<^verbatim>\<open>None\<close>).
  For every true action outside the four the handler looks the executor up and falls off
  its end: it returns no response.
\<close>

theorem unknown_action_falls_through:
  assumes "httpMethod ev = Some ''POST''" and "loaded_body ev = Inr rb"
    and "subscript rb ''action'' = Inr action" and "truthy action"
    and "action \<noteq> JStr ''create''" and "action \<noteq> JStr ''query''"
    and "action \<noteq> JStr ''update''" and "action \<noteq> JStr ''delete''"
    and "executer_arn srv env (store w) = (Inr arn, s)"
  shows "handler interp (Some env) ev srv w =
     (Inr None, after w [GetFunction (''alarmsExecuter-'' @ env)] s)"
  using assms(5-9) by (simp add: handler_lookup[OF assms(1-4)] bind_def)

theorem unknown_action_falls_through_witness:
  "handler cpython_3_8 (Some ''dev'') (post [(''action'', JStr ''foo'')]) mem_service (fresh []) =
   (Inr None, \<lparr>calls = [GetFunction ''alarmsExecuter-dev''], store = []\<rparr>)"
proof -
  let ?kvs = "[(''action'', JStr ''foo'')]"
  have h1: "httpMethod (post ?kvs) = Some ''POST''" by (simp add: post_def)
  have h2: "loaded_body (post ?kvs) = Inr (JObj ?kvs)" by (simp add: post_def)
  have h3: "subscript (JObj ?kvs) ''action'' = Inr (JStr ''foo'')" by code_simp
  have h4: "truthy (JStr ''foo'')" by code_simp
  have n: "JStr ''foo'' \<noteq> JStr ''create''" "JStr ''foo'' \<noteq> JStr ''query''"
    "JStr ''foo'' \<noteq> JStr ''update''" "JStr ''foo'' \<noteq> JStr ''delete''"
    by simp_all
  have arn: "executer_arn mem_service ''dev'' (store (fresh [])) =
      (Inr (JStr ''arn:aws:lambda:function:alarmsExecuter-dev''), [])"
    by code_simp
  show ?thesis
    using unknown_action_falls_through[OF h1 h2 h3 h4 n arn, of cpython_3_8]
    by (simp add: after_def fresh_def)
qed

subsection \<open>C4: delete when the detachment answers with a false value\<close>

text \<open>
  Claim C4. For a delete request whose \<^verbatim>\<open>remove_targets\<close> call returns a false
  response, the call that deletes the rule is never reached, and the handler falls through
  and returns no response.

  The first half holds and is the amended claim: for a delete request with a valid id
  whose \<^verbatim>\<open>remove_targets\<close> call returns a false response, the rule is not deleted;
  after the lookup the only call made is the detachment. The second half does not hold:
  the handler goes on to read \<^verbatim>\<open>delete_rule_response\<close>, which was never bound, and
  the error of that read is caught and answered. What the handler returns there is no
  part of the amended claim.
\<close>

theorem delete_falsy_detach:
  assumes "map_of kvs ''action'' = Some (JStr ''delete'')"
    and "executer_arn srv env (store w) = (Inr arn, s1)"
    and "name = py_str (field kvs ''id'')" and "validate_name name"
    and "srv (RemoveTargets name [name] True) s1 = (Inr r, s2)" and "\<not> truthy r"
  shows "snd (handler interp (Some env) (post kvs) srv w) =
     \<lparr>calls = calls w @ [GetFunction (''alarmsExecuter-'' @ env),
                         RemoveTargets name [name] True],
      store = s2\<rparr>"
  using assms(3-6)
  by (simp add: post_dispatch[OF assms(1) _ assms(2)] Let_def
      delete_rule_falsy[where name = name and r = r and s = s2] respond_def after_def)

theorem delete_falsy_detach_witness:
  "snd (handler cpython_3_8 (Some ''dev'')
          (post [(''action'', JStr ''delete''), (''id'', JStr ''job-1'')])
          (answering (RemoveTargets ''job-1'' [''job-1''] True) (Inr (JObj [])) mem_service)
          (fresh [(''job-1'', JStr ''cron(30 9 * * ? *)'', JStr ''ENABLED'')])) =
   \<lparr>calls = [GetFunction ''alarmsExecuter-dev'', RemoveTargets ''job-1'' [''job-1''] True],
    store = [(''job-1'', JStr ''cron(30 9 * * ? *)'', JStr ''ENABLED'')]\<rparr>"
proof -
  let ?kvs = "[(''action'', JStr ''delete''), (''id'', JStr ''job-1'')]"
  let ?rs = "[(''job-1'', JStr ''cron(30 9 * * ? *)'', JStr ''ENABLED'')]"
  let ?srv = "answering (RemoveTargets ''job-1'' [''job-1''] True) (Inr (JObj [])) mem_service"
  have h1: "map_of ?kvs ''action'' = Some (JStr ''delete'')" by code_simp
  have h2: "executer_arn ?srv ''dev'' (store (fresh ?rs)) =
      (Inr (JStr ''arn:aws:lambda:function:alarmsExecuter-dev''), ?rs)"
    by (simp add: executer_arn_def answering_def fresh_def)
  have h3: "''job-1'' = py_str (field ?kvs ''id'')" by code_simp
  have h4: "validate_name ''job-1''" by code_simp
  have h5: "?srv (RemoveTargets ''job-1'' [''job-1''] True) ?rs = (Inr (JObj []), ?rs)"
    by (simp add: answering_def)
  have h6: "\<not> truthy (JObj [])" by simp
  show ?thesis
    using delete_falsy_detach[OF h1 h2 h3 h4 h5 h6, of cpython_3_8] by (simp add: fresh_def)
qed

text \<open>
  The claim as stated fails on the rule store in memory: the handler returns a response,
  with status 400, under either wording of the interpreter.
\<close>

theorem delete_falsy_counterexample:
  "map_sum id (map_option statusCode)
     (fst (handler cpython_3_8 (Some ''dev'')
             (post [(''action'', JStr ''delete''), (''id'', JStr ''job-1'')])
             (answering (RemoveTargets ''job-1'' [''job-1''] True) (Inr (JObj [])) mem_service)
             (fresh [(''job-1'', JStr ''cron(30 9 * * ? *)'', JStr ''ENABLED'')])))
     = Inr (Some 400)
   \<and> map_sum id (map_option statusCode)
     (fst (handler cpython_3_11 (Some ''dev'')
             (post [(''action'', JStr ''delete''), (''id'', JStr ''job-1'')])
             (answering (RemoveTargets ''job-1'' [''job-1''] True) (Inr (JObj [])) mem_service)
             (fresh [(''job-1'', JStr ''cron(30 9 * * ? *)'', JStr ''ENABLED'')])))
     = Inr (Some 400)"
  by code_simp

subsection \<open>C5: requests the field checks reject\<close>

text \<open>
  Claim C5. Every validation failure is detected before any call to an external service
  and yields status 400 with a message naming the failed constraint; create with an id
  that has a space gives 400 with the message of the name pattern and no call to the
  scheduling service, and update with neither date nor state gives 400 and no call to the
  scheduling service.

  The handler looks the executor up (\<^verbatim>\<open>get_function\<close>, a call to the identity service)
  before it dispatches, so before any field is checked; when that call raises, no response
  is returned at all. Amended: when the lookup succeeds, every request that fails one of
  the field checks (\<open>rejection\<close>) is answered with status 400 and, as its body, the
  message of the first check it fails, and the lookup is the only call made: the
  scheduling service is not called. So it is for create with a date and an id that has a
  space (the message is the one of the name pattern), and for update with neither date nor
  state.
\<close>

theorem rejected_request:
  assumes "map_of kvs ''action'' = Some action"
    and "executer_arn srv env (store w) = (Inr arn, s)"
    and "rejection action (py_str (field kvs ''id'')) (field kvs ''date'') (field kvs ''state'')
           = Some m"
  shows "handler interp (Some env) (post kvs) srv w =
     (Inr (Some \<lparr>statusCode = 400, headers = cors, body = [dq] @ m @ [dq]\<rparr>),
      \<lparr>calls = calls w @ [GetFunction (''alarmsExecuter-'' @ env)], store = s\<rparr>)"
proof -
  let ?w1 = "after w [GetFunction (''alarmsExecuter-'' @ env)] s"
  have r: "respond (JStr m) 400 ?w1 =
     (Inr (Some \<lparr>statusCode = 400, headers = cors, body = [dq] @ m @ [dq]\<rparr>),
      \<lparr>calls = calls w @ [GetFunction (''alarmsExecuter-'' @ env)], store = s\<rparr>)"
    unfolding respond_eq rejection_body[OF assms(3)] by (simp add: after_def)
  consider (create) "action = JStr ''create''" | (query) "action = JStr ''query''"
    | (update) "action = JStr ''update''" | (delete) "action = JStr ''delete''"
    using assms(3) rejection_other[of action] by fastforce
  then have "handler interp (Some env) (post kvs) srv w = respond (JStr m) 400 ?w1"
  proof cases
    case create
    then have "handler interp (Some env) (post kvs) srv w = create_rule (JObj kvs) arn srv ?w1"
      using post_dispatch[OF assms(1) _ assms(2)] by (simp add: Let_def)
    also have "\<dots> = respond (JStr m) 400 ?w1"
      using assms(3) unfolding create by (rule rejected_create)
    finally show ?thesis .
  next
    case query
    then have "handler interp (Some env) (post kvs) srv w = query_rule (JObj kvs) srv ?w1"
      using post_dispatch[OF assms(1) _ assms(2)] by (simp add: Let_def)
    also have "\<dots> = respond (JStr m) 400 ?w1"
      using assms(3) unfolding query by (rule rejected_query)
    finally show ?thesis .
  next
    case update
    then have "handler interp (Some env) (post kvs) srv w = update_rule (JObj kvs) srv ?w1"
      using post_dispatch[OF assms(1) _ assms(2)] by (simp add: Let_def)
    also have "\<dots> = respond (JStr m) 400 ?w1"
      using assms(3) unfolding update by (rule rejected_update)
    finally show ?thesis .
  next
    case delete
    then have "handler interp (Some env) (post kvs) srv w = delete_rule interp (JObj kvs) srv ?w1"
      using post_dispatch[OF assms(1) _ assms(2)] by (simp add: Let_def)
    also have "\<dots> = respond (JStr m) 400 ?w1"
      using assms(3) unfolding delete by (rule rejected_delete)
    finally show ?thesis .
  qed
  with r show ?thesis by simp
qed

theorem rejected_request_witness:
  "handler cpython_3_8 (Some ''dev'')
     (post [(''action'', JStr ''create''), (''id'', JStr ''job 1''),
            (''date'', JStr ''2030-01-01 09:30:00'')])
     mem_service (fresh []) =
   (Inr (Some \<lparr>statusCode = 400, headers = cors,
               body = [dq] @ ''The rule's id must satisfy regular expression pattern: [''
                        @ [bs] @ ''.'' @ [bs] @ ''-_A-Za-z0-9]+'' @ [dq]\<rparr>),
    \<lparr>calls = [GetFunction ''alarmsExecuter-dev''], store = []\<rparr>)
   \<and> handler cpython_3_8 (Some ''dev'')
       (post [(''action'', JStr ''update''), (''id'', JStr ''job-1'')])
       mem_service (fresh []) =
     (Inr (Some \<lparr>statusCode = 400, headers = cors,
                 body = [dq] @ ''You must provide a date or a state to update the event''
                          @ [dq]\<rparr>),
      \<lparr>calls = [GetFunction ''alarmsExecuter-dev''], store = []\<rparr>)"
proof -
  let ?c = "[(''action'', JStr ''create''), (''id'', JStr ''job 1''),
             (''date'', JStr ''2030-01-01 09:30:00'')]"
  let ?u = "[(''action'', JStr ''update''), (''id'', JStr ''job-1'')]"
  have arn: "executer_arn mem_service ''dev'' (store (fresh [])) =
      (Inr (JStr ''arn:aws:lambda:function:alarmsExecuter-dev''), [])"
    by code_simp
  have c1: "map_of ?c ''action'' = Some (JStr ''create'')" by code_simp
  have c2: "rejection (JStr ''create'') (py_str (field ?c ''id'')) (field ?c ''date'')
      (field ?c ''state'') = Some pattern_message"
    by code_simp
  have u1: "map_of ?u ''action'' = Some (JStr ''update'')" by code_simp
  have u2: "rejection (JStr ''update'') (py_str (field ?u ''id'')) (field ?u ''date'')
      (field ?u ''state'') = Some ''You must provide a date or a state to update the event''"
    by code_simp
  show ?thesis
    using rejected_request[OF c1 arn c2, of cpython_3_8]
      rejected_request[OF u1 arn u2, of cpython_3_8]
    by (simp add: fresh_def pattern_message_def)
qed

text \<open>
  The claim as stated fails on a create request with a space in its id, when the lookup
  raises: a call was made, and the answer is the exception, not a 400.
\<close>

theorem validation_after_lookup_counterexample:
  "handler cpython_3_8 (Some ''dev'')
     (post [(''action'', JStr ''create''), (''id'', JStr ''job 1''),
            (''date'', JStr ''2030-01-01 09:30:00'')])
     (answering (GetFunction ''alarmsExecuter-dev'') (Inl (LibraryError ''Function not found''))
        mem_service)
     (fresh []) =
   (Inl (LibraryError ''Function not found''),
    \<lparr>calls = [GetFunction ''alarmsExecuter-dev''], store = []\<rparr>)"
  by code_simp

text \<open>
  A state that is not a string is outside the amended claim: the state check calls
  \<^verbatim>\<open>state.upper()\<close> before the \<^verbatim>\<open>try\<close>, and the \<^verbatim>\<open>AttributeError\<close> leaves the
  handler.
\<close>

lemma update_state_not_a_string:
  "handler cpython_3_8 (Some ''dev'')
     (post [(''action'', JStr ''update''), (''id'', JStr ''job-1''), (''state'', JInt 5)])
     mem_service (fresh []) =
   (Inl (AttributeError
      ([sq] @ ''int'' @ [sq] @ '' object has no attribute '' @ [sq] @ ''upper'' @ [sq])),
    \<lparr>calls = [GetFunction ''alarmsExecuter-dev''], store = []\<rparr>)"
  by code_simp

subsection \<open>C6: delete when the detachment raises\<close>

text \<open>
  Claim C6. For a delete request where the \<^verbatim>\<open>remove_targets\<close> call raises (as for an
  id no rule has), the handler returns status 400 with the message of the service's error
  as its body, and the call that deletes the rule is never made: the rule store is
  unchanged. The services are such that the lookup and the failed detachment leave the
  store as it is; then the store after the request is the store before it, and the calls
  made are the lookup and the detachment.
\<close>

theorem delete_detach_raises:
  assumes "map_of kvs ''action'' = Some (JStr ''delete'')"
    and "executer_arn srv env (store w) = (Inr arn, store w)"
    and "name = py_str (field kvs ''id'')" and "validate_name name"
    and "srv (RemoveTargets name [name] True) (store w) = (Inl e, store w)"
  shows "handler interp (Some env) (post kvs) srv w =
     (Inr (Some \<lparr>statusCode = 400, headers = cors,
                 body = replace_bs (json_dumps (JStr (exn_str e)))\<rparr>),
      \<lparr>calls = calls w @ [GetFunction (''alarmsExecuter-'' @ env),
                          RemoveTargets name [name] True],
       store = store w\<rparr>)"
  using assms(3-5)
  by (simp add: post_dispatch[OF assms(1) _ assms(2)] Let_def
      delete_rule_raises[where name = name and e = e and s = "store w"] respond_eq after_def)

theorem delete_detach_raises_witness:
  "handler cpython_3_8 (Some ''dev'')
     (post [(''action'', JStr ''delete''), (''id'', JStr ''ghost'')])
     mem_service (fresh [(''job-1'', JStr ''cron(30 9 * * ? *)'', JStr ''ENABLED'')]) =
   (Inr (Some \<lparr>statusCode = 400, headers = cors,
               body = [dq] @ ''Rule ghost does not exist.'' @ [dq]\<rparr>),
    \<lparr>calls = [GetFunction ''alarmsExecuter-dev'', RemoveTargets ''ghost'' [''ghost''] True],
     store = [(''job-1'', JStr ''cron(30 9 * * ? *)'', JStr ''ENABLED'')]\<rparr>)"
proof -
  let ?kvs = "[(''action'', JStr ''delete''), (''id'', JStr ''ghost'')]"
  let ?rs = "[(''job-1'', JStr ''cron(30 9 * * ? *)'', JStr ''ENABLED'')]"
  have h1: "map_of ?kvs ''action'' = Some (JStr ''delete'')" by code_simp
  have h2: "executer_arn mem_service ''dev'' (store (fresh ?rs)) =
      (Inr (JStr ''arn:aws:lambda:function:alarmsExecuter-dev''), store (fresh ?rs))"
    by code_simp
  have h3: "''ghost'' = py_str (field ?kvs ''id'')" by code_simp
  have h4: "validate_name ''ghost''" by code_simp
  have h5: "mem_service (RemoveTargets ''ghost'' [''ghost''] True) (store (fresh ?rs)) =
      (Inl (LibraryError ''Rule ghost does not exist.''), store (fresh ?rs))"
    by code_simp
  have b: "replace_bs (dumps_str ''Rule ghost does not exist.'')
      = [dq] @ ''Rule ghost does not exist.'' @ [dq]"
    by code_simp
  show ?thesis
    using delete_detach_raises[OF h1 h2 h3 h4 h5, of cpython_3_8] by (simp add: fresh_def b)
qed

subsection \<open>C7: update normalizes the state\<close>

text \<open>
  Claim C7. For an update request with a valid id and a state that spells \<^verbatim>\<open>ENABLED\<close>
  or \<^verbatim>\<open>DISABLED\<close> in any letter case (\<open>any_case_of\<close>), the request is accepted and
  the state reaches the \<^verbatim>\<open>put_rule\<close> call as that word in capitals; the status is
  200 when the service calls succeed. The schedule passed with it is the one of the date
  when the date parses, and the existing rule's otherwise.
\<close>

theorem update_state_normalized:
  assumes "map_of kvs ''action'' = Some (JStr ''update'')"
    and "executer_arn srv env (store w) = (Inr arn, s1)"
    and "name = py_str (field kvs ''id'')" and "validate_name name"
    and "field kvs ''state'' = JStr st"
    and "word = ''ENABLED'' \<or> word = ''DISABLED''" and "any_case_of word st"
    and "srv (DescribeRule name) s1 = (Inr q, s2)"
    and "(case (if truthy (field kvs ''date'') then validate_date (field kvs ''date'') else None) of
            Some dt \<Rightarrow> Inr (JStr (cron_expression dt))
          | None \<Rightarrow> subscript q ''ScheduleExpression'') = Inr schedule"
    and "srv (PutRule name schedule (JStr word)) s2 = (Inr u, s3)"
    and "subscript u ''RuleArn'' = Inr (JStr a)"
  shows "handler interp (Some env) (post kvs) srv w =
     (Inr (Some \<lparr>statusCode = 200, headers = cors,
                 body = replace_bs (json_dumps (JStr (''Rule updated successfully: '' @ a)))\<rparr>),
      \<lparr>calls = calls w @ [GetFunction (''alarmsExecuter-'' @ env), DescribeRule name,
                          PutRule name schedule (JStr word)],
       store = s3\<rparr>)"
proof -
  let ?w1 = "after w [GetFunction (''alarmsExecuter-'' @ env)] s1"
  note up = upper_of_word[OF assms(6,7)]
  have "handler interp (Some env) (post kvs) srv w = update_rule (JObj kvs) srv ?w1"
    using post_dispatch[OF assms(1) _ assms(2)] by (simp add: Let_def)
  also have "\<dots> = respond (JStr (''Rule updated successfully: '' @ a)) 200
       (after ?w1 [DescribeRule name, PutRule name schedule (JStr word)] s3)"
  proof (rule update_rule_applies[where q = q and ?s1.0 = s2 and u = u])
    show "name = py_str (field kvs ''id'')" by (rule assms(3))
    show "validate_name name" by (rule assms(4))
    show "truthy (field kvs ''date'') \<or> truthy (field kvs ''state'')"
      using up(2) by (simp add: assms(5))
    show "bad_state (field kvs ''state'') = Inr False"
      using assms(6) up by (auto simp: assms(5) bad_state_str)
    show "srv (DescribeRule name) (store ?w1) = (Inr q, s2)" using assms(8) by simp
    show "(case (if truthy (field kvs ''date'') then validate_date (field kvs ''date'') else None) of
            Some dt \<Rightarrow> Inr (JStr (cron_expression dt))
          | None \<Rightarrow> subscript q ''ScheduleExpression'') = Inr schedule" by (rule assms(9))
    show "(if truthy (field kvs ''state'') then map_sum id JStr (method_upper (field kvs ''state''))
          else subscript q ''State'') = Inr (JStr word)"
      using up by (simp add: assms(5) method_upper_def)
    show "srv (PutRule name schedule (JStr word)) s2 = (Inr u, s3)" by (rule assms(10))
    show "subscript u ''RuleArn'' = Inr (JStr a)" by (rule assms(11))
  qed
  finally show ?thesis by (simp add: respond_eq after_def)
qed

theorem update_state_normalized_witness:
  "handler cpython_3_8 (Some ''dev'')
     (post [(''action'', JStr ''update''), (''id'', JStr ''job-1''), (''state'', JStr ''enabled'')])
     mem_service (fresh [(''job-1'', JStr ''cron(0 8 * * ? *)'', JStr ''DISABLED'')]) =
   (Inr (Some \<lparr>statusCode = 200, headers = cors,
               body = [dq] @ ''Rule updated successfully: arn:aws:events:rule/job-1'' @ [dq]\<rparr>),
    \<lparr>calls = [GetFunction ''alarmsExecuter-dev'', DescribeRule ''job-1'',
              PutRule ''job-1'' (JStr ''cron(0 8 * * ? *)'') (JStr ''ENABLED'')],
     store = [(''job-1'', JStr ''cron(0 8 * * ? *)'', JStr ''ENABLED'')]\<rparr>)
   \<and> handler cpython_3_8 (Some ''dev'')
     (post [(''action'', JStr ''update''), (''id'', JStr ''job-1''), (''state'', JStr ''DiSabled'')])
     mem_service (fresh [(''job-1'', JStr ''cron(0 8 * * ? *)'', JStr ''ENABLED'')]) =
   (Inr (Some \<lparr>statusCode = 200, headers = cors,
               body = [dq] @ ''Rule updated successfully: arn:aws:events:rule/job-1'' @ [dq]\<rparr>),
    \<lparr>calls = [GetFunction ''alarmsExecuter-dev'', DescribeRule ''job-1'',
              PutRule ''job-1'' (JStr ''cron(0 8 * * ? *)'') (JStr ''DISABLED'')],
     store = [(''job-1'', JStr ''cron(0 8 * * ? *)'', JStr ''DISABLED'')]\<rparr>)"
proof -
  let ?k1 = "[(''action'', JStr ''update''), (''id'', JStr ''job-1''),
              (''state'', JStr ''enabled'')]"
  let ?k2 = "[(''action'', JStr ''update''), (''id'', JStr ''job-1''),
              (''state'', JStr ''DiSabled'')]"
  let ?r1 = "[(''job-1'', JStr ''cron(0 8 * * ? *)'', JStr ''DISABLED'')]"
  let ?r2 = "[(''job-1'', JStr ''cron(0 8 * * ? *)'', JStr ''ENABLED'')]"
  let ?q1 = "rule_json (''job-1'', JStr ''cron(0 8 * * ? *)'', JStr ''DISABLED'')"
  let ?q2 = "rule_json (''job-1'', JStr ''cron(0 8 * * ? *)'', JStr ''ENABLED'')"
  let ?u = "JObj [(''RuleArn'', JStr ''arn:aws:events:rule/job-1'')]"
  have a1: "map_of ?k1 ''action'' = Some (JStr ''update'')" by code_simp
  have a2: "executer_arn mem_service ''dev'' (store (fresh ?r1)) =
      (Inr (JStr ''arn:aws:lambda:function:alarmsExecuter-dev''), ?r1)"
    by code_simp
  have a3: "''job-1'' = py_str (field ?k1 ''id'')" by code_simp
  have a4: "validate_name ''job-1''" by code_simp
  have a5: "field ?k1 ''state'' = JStr ''enabled''" by code_simp
  have a6: "''ENABLED'' = ''ENABLED'' \<or> ''ENABLED'' = ''DISABLED''" by simp
  have a7: "any_case_of ''ENABLED'' ''enabled''" by code_simp
  have a8: "mem_service (DescribeRule ''job-1'') ?r1 = (Inr ?q1, ?r1)" by code_simp
  have a9: "(case (if truthy (field ?k1 ''date'') then validate_date (field ?k1 ''date'')
                   else None) of
               Some dt \<Rightarrow> Inr (JStr (cron_expression dt))
             | None \<Rightarrow> subscript ?q1 ''ScheduleExpression'') = Inr (JStr ''cron(0 8 * * ? *)'')"
    by code_simp
  have a10: "mem_service (PutRule ''job-1'' (JStr ''cron(0 8 * * ? *)'') (JStr ''ENABLED'')) ?r1
      = (Inr ?u, ?r2)"
    by code_simp
  have a11: "subscript ?u ''RuleArn'' = Inr (JStr ''arn:aws:events:rule/job-1'')" by code_simp
  have b1: "map_of ?k2 ''action'' = Some (JStr ''update'')" by code_simp
  have b2: "executer_arn mem_service ''dev'' (store (fresh ?r2)) =
      (Inr (JStr ''arn:aws:lambda:function:alarmsExecuter-dev''), ?r2)"
    by code_simp
  have b3: "''job-1'' = py_str (field ?k2 ''id'')" by code_simp
  have b5: "field ?k2 ''state'' = JStr ''DiSabled''" by code_simp
  have b6: "''DISABLED'' = ''ENABLED'' \<or> ''DISABLED'' = ''DISABLED''" by simp
  have b7: "any_case_of ''DISABLED'' ''DiSabled''" by code_simp
  have b8: "mem_service (DescribeRule ''job-1'') ?r2 = (Inr ?q2, ?r2)" by code_simp
  have b9: "(case (if truthy (field ?k2 ''date'') then validate_date (field ?k2 ''date'')
                   else None) of
               Some dt \<Rightarrow> Inr (JStr (cron_expression dt))
             | None \<Rightarrow> subscript ?q2 ''ScheduleExpression'') = Inr (JStr ''cron(0 8 * * ? *)'')"
    by code_simp
  have b10: "mem_service (PutRule ''job-1'' (JStr ''cron(0 8 * * ? *)'') (JStr ''DISABLED'')) ?r2
      = (Inr ?u, ?r1)"
    by code_simp
  have body: "replace_bs (dumps_str ''Rule updated successfully: arn:aws:events:rule/job-1'')
      = [dq] @ ''Rule updated successfully: arn:aws:events:rule/job-1'' @ [dq]"
    by code_simp
  show ?thesis
    using update_state_normalized[OF a1 a2 a3 a4 a5 a6 a7 a8 a9 a10 a11, of cpython_3_8]
      update_state_normalized[OF b1 b2 b3 a4 b5 b6 b7 b8 b9 b10 a11, of cpython_3_8]
    by (simp add: fresh_def body)
qed

subsection \<open>C8: query lists all rules or describes one\<close>

text \<open>
  Claim C8. For a query request whose id is empty or absent the handler returns the
  listing \<^verbatim>\<open>list_rules\<close> gives, as the body, with status 200, and never calls
  \<^verbatim>\<open>describe_rule\<close>; for an id that matches the name pattern it returns the description
  \<^verbatim>\<open>describe_rule\<close> gives, with status 200. The theorem also says what the handler
  returns when the call raises, and for an id off the pattern.
\<close>

theorem query_listing:
  assumes "map_of kvs ''action'' = Some (JStr ''query'')"
    and "executer_arn srv env (store w) = (Inr arn, s1)"
    and "name = py_str (field kvs ''id'')"
  shows "handler interp (Some env) (post kvs) srv w =
     (if name = [] then
        (case srv ListRules s1 of
           (Inl e, s2) \<Rightarrow>
             (Inr (Some \<lparr>statusCode = 400, headers = cors,
                         body = replace_bs (json_dumps (JStr (exn_str e)))\<rparr>),
              \<lparr>calls = calls w @ [GetFunction (''alarmsExecuter-'' @ env), ListRules],
               store = s2\<rparr>)
         | (Inr listing, s2) \<Rightarrow>
             (Inr (Some \<lparr>statusCode = 200, headers = cors,
                         body = replace_bs (json_dumps listing)\<rparr>),
              \<lparr>calls = calls w @ [GetFunction (''alarmsExecuter-'' @ env), ListRules],
               store = s2\<rparr>))
      else if validate_name name then
        (case srv (DescribeRule name) s1 of
           (Inl e, s2) \<Rightarrow>
             (Inr (Some \<lparr>statusCode = 400, headers = cors,
                         body = replace_bs (json_dumps (JStr (exn_str e)))\<rparr>),
              \<lparr>calls = calls w @ [GetFunction (''alarmsExecuter-'' @ env), DescribeRule name],
               store = s2\<rparr>)
         | (Inr description, s2) \<Rightarrow>
             (Inr (Some \<lparr>statusCode = 200, headers = cors,
                         body = replace_bs (json_dumps description)\<rparr>),
              \<lparr>calls = calls w @ [GetFunction (''alarmsExecuter-'' @ env), DescribeRule name],
               store = s2\<rparr>))
      else
        (Inr (Some \<lparr>statusCode = 400, headers = cors,
                    body = [dq] @ pattern_message @ [dq]\<rparr>),
         \<lparr>calls = calls w @ [GetFunction (''alarmsExecuter-'' @ env)], store = s1\<rparr>))"
proof -
  let ?w1 = "after w [GetFunction (''alarmsExecuter-'' @ env)] s1"
  have b: "replace_bs (json_dumps (JStr pattern_message)) = [dq] @ pattern_message @ [dq]"
    by code_simp
  have "handler interp (Some env) (post kvs) srv w = query_rule (JObj kvs) srv ?w1"
    using post_dispatch[OF assms(1) _ assms(2)] by (simp add: Let_def)
  then show ?thesis
    unfolding query_rule_cases[OF assms(3)] respond_eq b
    by (simp add: after_def split: prod.splits sum.splits)
qed

theorem query_listing_witness:
  "handler cpython_3_8 (Some ''dev'') (post [(''action'', JStr ''query'')])
     mem_service (fresh [(''job-1'', JStr ''cron(0 8 * * ? *)'', JStr ''DISABLED'')]) =
   (Inr (Some \<lparr>statusCode = 200, headers = cors,
       body = ''{'' @ [dq] @ ''Rules'' @ [dq] @ '': [{'' @ [dq] @ ''Name'' @ [dq] @ '': ''
         @ [dq] @ ''job-1'' @ [dq] @ '', '' @ [dq] @ ''ScheduleExpression'' @ [dq] @ '': ''
         @ [dq] @ ''cron(0 8 * * ? *)'' @ [dq] @ '', '' @ [dq] @ ''State'' @ [dq] @ '': ''
         @ [dq] @ ''DISABLED'' @ [dq] @ ''}]}''\<rparr>),
    \<lparr>calls = [GetFunction ''alarmsExecuter-dev'', ListRules],
     store = [(''job-1'', JStr ''cron(0 8 * * ? *)'', JStr ''DISABLED'')]\<rparr>)
   \<and> handler cpython_3_8 (Some ''dev'') (post [(''action'', JStr ''query''), (''id'', JStr ''job-1'')])
       mem_service (fresh [(''job-1'', JStr ''cron(0 8 * * ? *)'', JStr ''DISABLED'')]) =
   (Inr (Some \<lparr>statusCode = 200, headers = cors,
       body = ''{'' @ [dq] @ ''Name'' @ [dq] @ '': ''
         @ [dq] @ ''job-1'' @ [dq] @ '', '' @ [dq] @ ''ScheduleExpression'' @ [dq] @ '': ''
         @ [dq] @ ''cron(0 8 * * ? *)'' @ [dq] @ '', '' @ [dq] @ ''State'' @ [dq] @ '': ''
         @ [dq] @ ''DISABLED'' @ [dq] @ ''}''\<rparr>),
    \<lparr>calls = [GetFunction ''alarmsExecuter-dev'', DescribeRule ''job-1''],
     store = [(''job-1'', JStr ''cron(0 8 * * ? *)'', JStr ''DISABLED'')]\<rparr>)"
proof -
  let ?a = "[(''action'', JStr ''query'')]"
  let ?b = "[(''action'', JStr ''query''), (''id'', JStr ''job-1'')]"
  let ?rs = "[(''job-1'', JStr ''cron(0 8 * * ? *)'', JStr ''DISABLED'')]"
  let ?d = "JObj [(''Name'', JStr ''job-1''), (''ScheduleExpression'', JStr ''cron(0 8 * * ? *)''),
                  (''State'', JStr ''DISABLED'')]"
  have arn: "executer_arn mem_service ''dev'' (store (fresh ?rs)) =
      (Inr (JStr ''arn:aws:lambda:function:alarmsExecuter-dev''), ?rs)"
    by code_simp
  have a1: "map_of ?a ''action'' = Some (JStr ''query'')" by code_simp
  have a2: "[] = py_str (field ?a ''id'')" by code_simp
  have b1: "map_of ?b ''action'' = Some (JStr ''query'')" by code_simp
  have b2: "''job-1'' = py_str (field ?b ''id'')" by code_simp
  have b3: "validate_name ''job-1''" by code_simp
  have l: "mem_service ListRules ?rs = (Inr (JObj [(''Rules'', JArr [?d])]), ?rs)"
    by code_simp
  have d: "mem_service (DescribeRule ''job-1'') ?rs = (Inr ?d, ?rs)"
    by code_simp
  have bl: "replace_bs (json_dumps (JObj [(''Rules'', JArr [?d])])) =
       ''{'' @ [dq] @ ''Rules'' @ [dq] @ '': [{'' @ [dq] @ ''Name'' @ [dq] @ '': ''
         @ [dq] @ ''job-1'' @ [dq] @ '', '' @ [dq] @ ''ScheduleExpression'' @ [dq] @ '': ''
         @ [dq] @ ''cron(0 8 * * ? *)'' @ [dq] @ '', '' @ [dq] @ ''State'' @ [dq] @ '': ''
         @ [dq] @ ''DISABLED'' @ [dq] @ ''}]}''"
    by code_simp
  have bd: "replace_bs (json_dumps ?d) =
       ''{'' @ [dq] @ ''Name'' @ [dq] @ '': ''
         @ [dq] @ ''job-1'' @ [dq] @ '', '' @ [dq] @ ''ScheduleExpression'' @ [dq] @ '': ''
         @ [dq] @ ''cron(0 8 * * ? *)'' @ [dq] @ '', '' @ [dq] @ ''State'' @ [dq] @ '': ''
         @ [dq] @ ''DISABLED'' @ [dq] @ ''}''"
    by code_simp
  have one: "handler cpython_3_8 (Some ''dev'') (post ?a) mem_service (fresh ?rs) =
      (Inr (Some \<lparr>statusCode = 200, headers = cors,
                  body = replace_bs (json_dumps (JObj [(''Rules'', JArr [?d])]))\<rparr>),
       \<lparr>calls = [GetFunction ''alarmsExecuter-dev'', ListRules], store = ?rs\<rparr>)"
    unfolding query_listing[OF a1 arn a2, of cpython_3_8] l by (simp add: fresh_def)
  have two: "handler cpython_3_8 (Some ''dev'') (post ?b) mem_service (fresh ?rs) =
      (Inr (Some \<lparr>statusCode = 200, headers = cors, body = replace_bs (json_dumps ?d)\<rparr>),
       \<lparr>calls = [GetFunction ''alarmsExecuter-dev'', DescribeRule ''job-1''], store = ?rs\<rparr>)"
    unfolding query_listing[OF b1 arn b2, of cpython_3_8] d using b3 by (simp add: fresh_def)
  show ?thesis unfolding one two bl bd by simp
qed

subsection \<open>C9: a failing lookup is not caught\<close>

text \<open>
  Claim C9. When the lookup of the executor, made once per request after the action has
  passed its check and before the dispatch, raises, the handler does not catch the
  exception, where every other failure is turned into a 400 or 405 response.

  The first half holds and is the amended claim: when the lookup raises, the exception
  leaves the handler and no response is returned. (The action passes the check of the
  handler exactly when it is true.) The second half does not hold: the lookup is not the
  only failure that leaves the handler.
\<close>

theorem lookup_failure_propagates:
  assumes "httpMethod ev = Some ''POST''" and "loaded_body ev = Inr rb"
    and "subscript rb ''action'' = Inr action" and "truthy action"
    and "srv (GetFunction (''alarmsExecuter-'' @ env)) (store w) = (Inl e, s)"
  shows "handler interp (Some env) ev srv w =
     (Inl e, \<lparr>calls = calls w @ [GetFunction (''alarmsExecuter-'' @ env)], store = s\<rparr>)"
  using assms(5)
  by (simp add: handler_lookup[OF assms(1-4)] bind_def executer_arn_def after_def)

theorem lookup_failure_propagates_witness:
  "handler cpython_3_8 (Some ''dev'')
     (post [(''action'', JStr ''create''), (''id'', JStr ''job-1''),
            (''date'', JStr ''2030-01-01 09:30:00'')])
     (answering (GetFunction ''alarmsExecuter-dev'') (Inl (LibraryError ''Function not found''))
        mem_service)
     (fresh []) =
   (Inl (LibraryError ''Function not found''),
    \<lparr>calls = [GetFunction ''alarmsExecuter-dev''], store = []\<rparr>)"
proof -
  let ?kvs = "[(''action'', JStr ''create''), (''id'', JStr ''job-1''),
               (''date'', JStr ''2030-01-01 09:30:00'')]"
  let ?srv = "answering (GetFunction ''alarmsExecuter-dev'')
                (Inl (LibraryError ''Function not found'')) mem_service"
  have h1: "httpMethod (post ?kvs) = Some ''POST''" by (simp add: post_def)
  have h2: "loaded_body (post ?kvs) = Inr (JObj ?kvs)" by (simp add: post_def)
  have h3: "subscript (JObj ?kvs) ''action'' = Inr (JStr ''create'')" by code_simp
  have h4: "truthy (JStr ''create'')" by code_simp
  have h5: "?srv (GetFunction (''alarmsExecuter-'' @ ''dev'')) (store (fresh [])) =
      (Inl (LibraryError ''Function not found''), [])"
    by (simp add: answering_def fresh_def)
  show ?thesis
    using lookup_failure_propagates
      [where srv = ?srv and env = "''dev''" and w = "fresh []" and interp = cpython_3_8,
       OF h1 h2 h3 h4 h5]
    by (simp add: fresh_def)
qed

text \<open>
  Another failure that is not turned into a response: a body that is JSON but a list.
  Reading its action raises \<^verbatim>\<open>TypeError\<close>, and the handler catches \<^verbatim>\<open>KeyError\<close>
  only.
\<close>

theorem other_failure_propagates_counterexample:
  "handler cpython_3_8 (Some ''dev'')
     \<lparr>httpMethod = Some ''POST'', loaded_body = Inr (JArr [])\<rparr> mem_service (fresh []) =
   (Inl (TypeError ''list indices must be integers or slices, not str''),
    \<lparr>calls = [], store = []\<rparr>)"
  by code_simp

subsection \<open>C10: update with a date that does not parse\<close>

text \<open>
  Claim C10. For an update request with a valid id and a date that is present but does
  not parse (such as \<^verbatim>\<open>not-a-date\<close>), the handler does not answer 400 for the date: it
  goes on as if the date were absent, reads the existing rule and puts the rule again with
  its old schedule, returning status 200 when the service calls succeed. Present means
  true: an empty date is what \<^verbatim>\<open>read_body_parameter\<close> gives for an absent one. The
  state is absent, or a string the state check accepts.
\<close>

theorem update_unparsable_date:
  assumes "map_of kvs ''action'' = Some (JStr ''update'')"
    and "executer_arn srv env (store w) = (Inr arn, s1)"
    and "name = py_str (field kvs ''id'')" and "validate_name name"
    and "truthy (field kvs ''date'')" and "validate_date (field kvs ''date'') = None"
    and "bad_state (field kvs ''state'') = Inr False"
    and "srv (DescribeRule name) s1 = (Inr q, s2)"
    and "subscript q ''ScheduleExpression'' = Inr schedule"
    and "(if truthy (field kvs ''state'') then map_sum id JStr (method_upper (field kvs ''state''))
          else subscript q ''State'') = Inr new_state"
    and "srv (PutRule name schedule new_state) s2 = (Inr u, s3)"
    and "subscript u ''RuleArn'' = Inr (JStr a)"
  shows "handler interp (Some env) (post kvs) srv w =
     (Inr (Some \<lparr>statusCode = 200, headers = cors,
                 body = replace_bs (json_dumps (JStr (''Rule updated successfully: '' @ a)))\<rparr>),
      \<lparr>calls = calls w @ [GetFunction (''alarmsExecuter-'' @ env), DescribeRule name,
                          PutRule name schedule new_state],
       store = s3\<rparr>)"
proof -
  let ?w1 = "after w [GetFunction (''alarmsExecuter-'' @ env)] s1"
  have "handler interp (Some env) (post kvs) srv w = update_rule (JObj kvs) srv ?w1"
    using post_dispatch[OF assms(1) _ assms(2)] by (simp add: Let_def)
  also have "\<dots> = respond (JStr (''Rule updated successfully: '' @ a)) 200
       (after ?w1 [DescribeRule name, PutRule name schedule new_state] s3)"
  proof (rule update_rule_applies[where q = q and ?s1.0 = s2 and u = u])
    show "name = py_str (field kvs ''id'')" by (rule assms(3))
    show "validate_name name" by (rule assms(4))
    show "truthy (field kvs ''date'') \<or> truthy (field kvs ''state'')" using assms(5) by simp
    show "bad_state (field kvs ''state'') = Inr False" by (rule assms(7))
    show "srv (DescribeRule name) (store ?w1) = (Inr q, s2)" using assms(8) by simp
    show "(case (if truthy (field kvs ''date'') then validate_date (field kvs ''date'') else None) of
            Some dt \<Rightarrow> Inr (JStr (cron_expression dt))
          | None \<Rightarrow> subscript q ''ScheduleExpression'') = Inr schedule"
      using assms(5,6,9) by simp
    show "(if truthy (field kvs ''state'') then map_sum id JStr (method_upper (field kvs ''state''))
          else subscript q ''State'') = Inr new_state" by (rule assms(10))
    show "srv (PutRule name schedule new_state) s2 = (Inr u, s3)" by (rule assms(11))
    show "subscript u ''RuleArn'' = Inr (JStr a)" by (rule assms(12))
  qed
  finally show ?thesis by (simp add: respond_eq after_def)
qed

theorem update_unparsable_date_witness:
  "handler cpython_3_8 (Some ''dev'')
     (post [(''action'', JStr ''update''), (''id'', JStr ''job-1''), (''date'', JStr ''not-a-date'')])
     mem_service (fresh [(''job-1'', JStr ''cron(0 8 * * ? *)'', JStr ''DISABLED'')]) =
   (Inr (Some \<lparr>statusCode = 200, headers = cors,
               body = [dq] @ ''Rule updated successfully: arn:aws:events:rule/job-1'' @ [dq]\<rparr>),
    \<lparr>calls = [GetFunction ''alarmsExecuter-dev'', DescribeRule ''job-1'',
              PutRule ''job-1'' (JStr ''cron(0 8 * * ? *)'') (JStr ''DISABLED'')],
     store = [(''job-1'', JStr ''cron(0 8 * * ? *)'', JStr ''DISABLED'')]\<rparr>)"
proof -
  let ?kvs = "[(''action'', JStr ''update''), (''id'', JStr ''job-1''),
               (''date'', JStr ''not-a-date'')]"
  let ?rs = "[(''job-1'', JStr ''cron(0 8 * * ? *)'', JStr ''DISABLED'')]"
  let ?q = "rule_json (''job-1'', JStr ''cron(0 8 * * ? *)'', JStr ''DISABLED'')"
  let ?u = "JObj [(''RuleArn'', JStr ''arn:aws:events:rule/job-1'')]"
  have h1: "map_of ?kvs ''action'' = Some (JStr ''update'')" by code_simp
  have h2: "executer_arn mem_service ''dev'' (store (fresh ?rs)) =
      (Inr (JStr ''arn:aws:lambda:function:alarmsExecuter-dev''), ?rs)"
    by code_simp
  have h3: "''job-1'' = py_str (field ?kvs ''id'')" by code_simp
  have h4: "validate_name ''job-1''" by code_simp
  have h5: "truthy (field ?kvs ''date'')" by code_simp
  have h6: "validate_date (field ?kvs ''date'') = None" by code_simp
  have h7: "bad_state (field ?kvs ''state'') = Inr False" by code_simp
  have h8: "mem_service (DescribeRule ''job-1'') ?rs = (Inr ?q, ?rs)" by code_simp
  have h9: "subscript ?q ''ScheduleExpression'' = Inr (JStr ''cron(0 8 * * ? *)'')" by code_simp
  have h10: "(if truthy (field ?kvs ''state'')
              then map_sum id JStr (method_upper (field ?kvs ''state''))
              else subscript ?q ''State'') = Inr (JStr ''DISABLED'')"
    by code_simp
  have h11: "mem_service (PutRule ''job-1'' (JStr ''cron(0 8 * * ? *)'') (JStr ''DISABLED'')) ?rs
      = (Inr ?u, ?rs)"
    by code_simp
  have h12: "subscript ?u ''RuleArn'' = Inr (JStr ''arn:aws:events:rule/job-1'')" by code_simp
  have body: "replace_bs (dumps_str ''Rule updated successfully: arn:aws:events:rule/job-1'')
      = [dq] @ ''Rule updated successfully: arn:aws:events:rule/job-1'' @ [dq]"
    by code_simp
  show ?thesis
    using update_unparsable_date[OF h1 h2 h3 h4 h5 h6 h7 h8 h9 h10 h11 h12, of cpython_3_8]
    by (simp add: fresh_def body)
qed

end
